theory Spec2Isabelle
  imports Main "HOL-Library.Sublist"
begin

section \<open>JavaScript strings and the built-ins the handler calls\<close>

text \<open>
  A JavaScript string is modelled by the list of bytes of its UTF-8 encoding
  (\<^typ>\<open>string\<close>, one \<^typ>\<open>char\<close> per byte), for well-formed strings (no lone
  surrogate).  Concatenation, \<open>startsWith\<close>, \<open>includes\<close> and \<open>split\<close> on
  ASCII arguments are the same on code units and on UTF-8 bytes, and
  \<open>btoa(unescape(encodeURIComponent(s)))\<close> is the Base64 text of exactly these bytes.
  A value that may be \<open>undefined\<close> or \<open>null\<close> (an absent field, a missing
  query parameter or header) is an \<^typ>\<open>string option\<close>, \<open>None\<close> being the absent
  value.
\<close>

definition falsy :: "string option \<Rightarrow> bool" where
  \<comment> \<open>\<open>!v\<close> for a value that is a string, \<open>null\<close> or \<open>undefined\<close>\<close>
  "falsy v = (case v of None \<Rightarrow> True | Some s \<Rightarrow> s = [])"

definition toStr :: "string option \<Rightarrow> string" where
  \<comment> \<open>string conversion of a value spliced into a template or handed to a Web API\<close>
  "toStr v = (case v of None \<Rightarrow> ''undefined'' | Some s \<Rightarrow> s)"

definition newline :: char where
  "newline = CHR 0x0A"

definition backtick :: char where
  "backtick = CHR 0x60"

definition startsWith :: "string \<Rightarrow> string \<Rightarrow> bool" where
  "startsWith s p = (take (length p) s = p)"

fun str_includes :: "string \<Rightarrow> string \<Rightarrow> bool" where
  \<comment> \<open>\<open>s.includes(k)\<close>\<close>
  "str_includes [] k = (k = [])"
| "str_includes (c # cs) k = (startsWith (c # cs) k \<or> str_includes cs k)"

definition lower_char :: "char \<Rightarrow> char" where
  "lower_char c =
     (let n = (of_char c :: nat) in if 65 \<le> n \<and> n \<le> 90 then char_of (n + 32) else c)"

definition toLowerCase :: "string \<Rightarrow> string" where
  \<comment> \<open>on the ASCII letters; the bytes of other characters are kept, so a header with
      letters outside ASCII that JavaScript lower-cases (U+212A becomes \<open>k\<close>) is outside
      the model\<close>
  "toLowerCase s = map lower_char s"

fun split_str :: "char \<Rightarrow> string \<Rightarrow> string list" where
  \<comment> \<open>\<open>s.split(d)\<close> for a one-character separator: \<open>''''.split('/')\<close> is \<open>['''']\<close>\<close>
  "split_str d [] = [[]]"
| "split_str d (c # cs) =
     (if c = d then [] # split_str d cs
      else (case split_str d cs of [] \<Rightarrow> [[c]] | w # ws \<Rightarrow> (c # w) # ws))"

fun join :: "string \<Rightarrow> string list \<Rightarrow> string" where
  "join sep [] = []"
| "join sep [x] = x"
| "join sep (x # y # ys) = x @ sep @ join sep (y # ys)"

subsection \<open>\<open>String.prototype.trim\<close>\<close>

definition white_space :: "string list" where
  \<comment> \<open>the UTF-8 forms of ECMAScript's WhiteSpace and LineTerminator code points:
      U+0009..U+000D, U+0020, U+00A0, U+1680, U+2000..U+200A, U+2028, U+2029, U+202F,
      U+205F, U+3000, U+FEFF\<close>
  "white_space =
     [[CHR 0x09], [CHR 0x0A], [CHR 0x0B], [CHR 0x0C], [CHR 0x0D], [CHR 0x20],
      [CHR 0xC2, CHR 0xA0], [CHR 0xE1, CHR 0x9A, CHR 0x80],
      [CHR 0xE2, CHR 0x80, CHR 0x80], [CHR 0xE2, CHR 0x80, CHR 0x81],
      [CHR 0xE2, CHR 0x80, CHR 0x82], [CHR 0xE2, CHR 0x80, CHR 0x83],
      [CHR 0xE2, CHR 0x80, CHR 0x84], [CHR 0xE2, CHR 0x80, CHR 0x85],
      [CHR 0xE2, CHR 0x80, CHR 0x86], [CHR 0xE2, CHR 0x80, CHR 0x87],
      [CHR 0xE2, CHR 0x80, CHR 0x88], [CHR 0xE2, CHR 0x80, CHR 0x89],
      [CHR 0xE2, CHR 0x80, CHR 0x8A], [CHR 0xE2, CHR 0x80, CHR 0xA8],
      [CHR 0xE2, CHR 0x80, CHR 0xA9], [CHR 0xE2, CHR 0x80, CHR 0xAF],
      [CHR 0xE2, CHR 0x81, CHR 0x9F], [CHR 0xE3, CHR 0x80, CHR 0x80],
      [CHR 0xEF, CHR 0xBB, CHR 0xBF]]"

function dropLeading :: "string list \<Rightarrow> string \<Rightarrow> string" where
  "dropLeading ws s =
     (case List.find (\<lambda>w. w \<noteq> [] \<and> startsWith s w) ws of
        None \<Rightarrow> s
      | Some w \<Rightarrow> dropLeading ws (drop (length w) s))"
  by pat_completeness auto
termination
proof (relation "measure (\<lambda>(ws, s). length s)")
  show "wf (measure (\<lambda>(ws, s). length s))" by simp
next
  fix ws :: "string list" and s w :: string
  assume "List.find (\<lambda>w. w \<noteq> [] \<and> startsWith s w) ws = Some w"
  then have "w \<noteq> []" and "startsWith s w"
    by (auto simp: find_Some_iff)
  then have "s \<noteq> []"
    by (auto simp: startsWith_def)
  with \<open>w \<noteq> []\<close> show "((ws, drop (length w) s), (ws, s)) \<in> measure (\<lambda>(ws, s). length s)"
    by simp
qed

declare dropLeading.simps [simp del]

definition trim :: "string \<Rightarrow> string" where
  "trim s = rev (dropLeading (map rev white_space) (rev (dropLeading white_space s)))"

subsection \<open>Numbers as decimal text\<close>

definition digit_char :: "nat \<Rightarrow> char" where
  "digit_char d = char_of (48 + d)"

function show_nat :: "nat \<Rightarrow> string" where
  "show_nat n = (if n < 10 then [digit_char n] else show_nat (n div 10) @ [digit_char (n mod 10)])"
  by pat_completeness auto
termination
  by (relation "measure id") auto

declare show_nat.simps [simp del]

subsection \<open>\<open>encodeURIComponent\<close> and \<open>btoa\<close>\<close>

definition unreserved :: "char \<Rightarrow> bool" where
  \<comment> \<open>the characters \<open>encodeURIComponent\<close> leaves alone\<close>
  "unreserved c =
     (let n = (of_char c :: nat) in
        (65 \<le> n \<and> n \<le> 90) \<or> (97 \<le> n \<and> n \<le> 122) \<or> (48 \<le> n \<and> n \<le> 57) \<or>
        c \<in> set ''-_.!~*()'' \<or> n = 39)"

definition hex_digit :: "nat \<Rightarrow> char" where
  "hex_digit d = (if d < 10 then char_of (48 + d) else char_of (55 + d))"

definition percent_byte :: "char \<Rightarrow> string" where
  "percent_byte c =
     (let n = (of_char c :: nat) in [CHR ''%'', hex_digit (n div 16), hex_digit (n mod 16)])"

definition encodeURIComponent :: "string \<Rightarrow> string" where
  "encodeURIComponent s = concat (map (\<lambda>c. if unreserved c then [c] else percent_byte c) s)"

definition b64_alphabet :: string where
  "b64_alphabet = ''ABCDEFGHIJKLMNOPQRSTUVWXYZabcdefghijklmnopqrstuvwxyz0123456789+/''"

definition b64_char :: "nat \<Rightarrow> char" where
  "b64_char i = b64_alphabet ! (i mod 64)"

fun btoa :: "string \<Rightarrow> string" where
  \<comment> \<open>Base64 with padding, three bytes to four characters\<close>
  "btoa [] = []"
| "btoa [a] =
     (let x = (of_char a :: nat) in
        [b64_char (x div 4), b64_char ((x mod 4) * 16), CHR ''='', CHR ''=''])"
| "btoa [a, b] =
     (let x = (of_char a :: nat); y = (of_char b :: nat) in
        [b64_char (x div 4), b64_char ((x mod 4) * 16 + y div 16),
         b64_char ((y mod 16) * 4), CHR ''=''])"
| "btoa (a # b # c # rest) =
     (let x = (of_char a :: nat); y = (of_char b :: nat); z = (of_char c :: nat) in
        [b64_char (x div 4), b64_char ((x mod 4) * 16 + y div 16),
         b64_char ((y mod 16) * 4 + z div 64), b64_char (z mod 64)]) @ btoa rest"

definition b64_index :: "char \<Rightarrow> nat option" where
  \<comment> \<open>the position of a character in the Base64 alphabet\<close>
  "b64_index c = List.find (\<lambda>i. b64_alphabet ! i = c) [0 ..< 64]"

fun atob :: "string \<Rightarrow> string option" where
  \<comment> \<open>the decoder a client applies to the body: the inverse of \<^const>\<open>btoa\<close> on padded
      Base64 text, \<open>None\<close> on anything else\<close>
  "atob [] = Some []"
| "atob (p # q # r # s # rest) =
     (case (b64_index p, b64_index q) of
        (Some i, Some j) \<Rightarrow>
          (if r = CHR ''='' \<and> s = CHR ''='' \<and> rest = [] then
             (if j mod 16 = 0 then Some [char_of (i * 4 + j div 16)] else None)
           else (case b64_index r of
             None \<Rightarrow> None
           | Some k \<Rightarrow>
               (if s = CHR ''='' \<and> rest = [] then
                  (if k mod 4 = 0
                   then Some [char_of (i * 4 + j div 16), char_of ((j mod 16) * 16 + k div 4)]
                   else None)
                else (case (b64_index s, atob rest) of
                  (Some l, Some bs) \<Rightarrow>
                    Some (char_of (i * 4 + j div 16) # char_of ((j mod 16) * 16 + k div 4) #
                          char_of ((k mod 4) * 64 + l) # bs)
                | _ \<Rightarrow> None))))
      | _ \<Rightarrow> None)"
| "atob _ = None"

section \<open>Data model\<close>

text \<open>
  The stored objects, read-only to the handler.  A boolean field is \<open>True\<close> exactly when
  the JavaScript value is truthy, so a field that is missing reads \<open>False\<close>.  Byte counts
  are JavaScript numbers holding integers; they are modelled by \<^typ>\<open>int\<close>, which is exact
  as long as the sums stay below \<open>2^53\<close>.
\<close>

record userInfo =
  upload :: "int option"
  download :: "int option"
  total :: "int option"

record entry =
  e_id :: string
  e_url :: string
  e_name :: string
  e_enabled :: bool
  e_userInfo :: "userInfo option"
  e_isExpiredNode :: bool

record profile =
  p_id :: string
  p_customId :: "string option"
  p_name :: string
  p_enabled :: bool
  p_expiresAt :: "string option"
  p_subscriptions :: "string list"
  p_manualNodes :: "string list"
  p_subConverter :: "string option"
  p_subConfig :: "string option"
  p_prefixSettings :: "string option"

record settings =
  mytoken :: "string option"
  profileToken :: "string option"
  subConverter :: "string option"
  subConfig :: "string option"
  FileName :: "string option"

type_synonym params = "(string \<times> string) list"

record url =
  protocol :: string
  host :: string
  hostname :: string
  pathname :: string
  searchParams :: params

record request =
  req_url :: url
  req_headers :: "(string \<times> string) list"

record response =
  status :: nat
  statusText :: string
  headers :: "(string \<times> string) list"
  body :: string

record upstream =
  up_status :: nat
  up_statusText :: string
  up_headers :: "(string \<times> string) list"
  up_body :: string

record notification =
  n_config :: settings
  n_title :: string
  n_clientIp :: string
  n_additionalData :: string

text \<open>
  What a request runs against: the storage snapshot read at entry, and the collaborators
  imported from other modules or provided by the platform.  \<open>config\<close> is the value of
  \<open>migrateConfigSettings({ ...defaultSettings, ...settings })\<close>; \<open>now\<close> and \<open>dateValue\<close>
  are the time values of \<open>new Date()\<close> and \<open>new Date(s)\<close> (\<open>None\<close> for an invalid date);
  \<open>generateCombinedNodeList\<close> gets the request in place of the platform's context object;
  \<open>newURL\<close> is the \<open>URL\<close> constructor (\<open>None\<close> when it throws); \<open>fetch\<close> gives the
  converter's answer, or the message of the error thrown by \<open>fetch\<close> or by reading the
  body; \<open>nullBodyMessage\<close> is the platform's message for a body given to a status that
  allows none.  The other collaborators are taken to return: a node-list or
  callback-token call that throws is outside the model.
\<close>

record env =
  config :: settings
  allMisubs :: "entry list"
  allProfiles :: "profile list"
  now :: int
  dateValue :: "string \<Rightarrow> int option"
  toLocaleString :: "string \<Rightarrow> string"
  formatBytes :: "int \<Rightarrow> string"
  getCallbackToken :: string
  generateCombinedNodeList ::
    "request \<Rightarrow> settings \<Rightarrow> string \<Rightarrow> entry list \<Rightarrow> string \<Rightarrow> string option \<Rightarrow> string"
  newURL :: "string \<Rightarrow> url option"
  fetch :: "url \<Rightarrow> string + upstream"
  nullBodyMessage :: string

text \<open>
  How the handler ends: the \<open>return\<close> statement that produced the response (named by what
  it returns, with its line in \<open>subscription-handler.js\<close>), or the exception that leaves
  the handler when the converter's URL cannot be built.
\<close>

datatype exit =
    InvalidProfileToken  \<comment> \<open>line 72\<close>
  | ProfileNotFound  \<comment> \<open>line 78\<close>
  | InvalidToken  \<comment> \<open>line 129\<close>
  | NotConfigured  \<comment> \<open>line 138\<close>
  | Base64Output  \<comment> \<open>line 268\<close>
  | CallbackOutput  \<comment> \<open>line 289\<close>
  | ConverterRelay  \<comment> \<open>line 331\<close>
  | ConverterError  \<comment> \<open>line 339\<close>

datatype reply = Reply exit response | Uncaught

subsection \<open>\<open>URLSearchParams\<close>, \<open>Headers\<close> and \<open>Response\<close>\<close>

definition sp_get :: "params \<Rightarrow> string \<Rightarrow> string option" where
  \<comment> \<open>\<open>searchParams.get(k)\<close>: the value of the first pair named \<open>k\<close>\<close>
  "sp_get ps k = map_of ps k"

definition sp_has :: "params \<Rightarrow> string \<Rightarrow> bool" where
  "sp_has ps k = (k \<in> set (map fst ps))"

fun sp_set :: "params \<Rightarrow> string \<Rightarrow> string \<Rightarrow> params" where
  \<comment> \<open>\<open>searchParams.set(k, v)\<close>: the first pair named \<open>k\<close> takes the value, the others
      go; a new pair is appended\<close>
  "sp_set [] k v = [(k, v)]"
| "sp_set ((k', v') # ps) k v =
     (if k' = k then (k, v) # filter (\<lambda>q. fst q \<noteq> k) ps else (k', v') # sp_set ps k v)"

definition headers_get :: "(string \<times> string) list \<Rightarrow> string \<Rightarrow> string option" where
  \<comment> \<open>header names are kept in lower case, as \<open>Headers\<close> keeps them\<close>
  "headers_get hs k = map_of hs (toLowerCase k)"

definition headers_set :: "(string \<times> string) list \<Rightarrow> string \<Rightarrow> string \<Rightarrow> (string \<times> string) list" where
  "headers_set hs k v = sp_set hs (toLowerCase k) v"

definition text_response :: "nat \<Rightarrow> string \<Rightarrow> response" where
  \<comment> \<open>\<open>new Response(text, { status })\<close>; \<open>headers\<close> holds the headers the handler
      passes, not the content type the constructor adds for a text body\<close>
  "text_response st txt = \<lparr>status = st, statusText = [], headers = [], body = txt\<rparr>"

definition plain_headers :: "(string \<times> string) list" where
  "plain_headers =
     headers_set (headers_set [] ''Content-Type'' ''text/plain; charset=utf-8'')
       ''Cache-Control'' ''no-store, no-cache''"

section \<open>The handler, in the order of the source\<close>

subsection \<open>Constants\<close>

definition expired_prefix :: string where
  "expired_prefix =
     ''ss://YWVzLTI1Ni1nY206MDAwMDAwMDAwMDAwMDAwMA==@127.0.0.1:443#'' @
     [CHR 0xF0, CHR 0x9F, CHR 0x87, CHR 0xA8, CHR 0xF0, CHR 0x9F, CHR 0x87, CHR 0xB3] @ '' ''"

definition EXPIRED_NODES :: "string list" where
  \<comment> \<open>lines 21-26; the labels are the UTF-8 bytes of the source's text\<close>
  "EXPIRED_NODES =
     [expired_prefix @
        [CHR 0xE8, CHR 0xAE, CHR 0xA2, CHR 0xE9, CHR 0x98, CHR 0x85, CHR 0xE4, CHR 0xBC,
         CHR 0x9A, CHR 0xE5, CHR 0x91, CHR 0x98, CHR 0xE5, CHR 0xB7, CHR 0xB2, CHR 0xE5,
         CHR 0x88, CHR 0xB0, CHR 0xE6, CHR 0x9C, CHR 0x9F],
      expired_prefix @
        [CHR 0xE8, CHR 0xAE, CHR 0xA2, CHR 0xE9, CHR 0x98, CHR 0x85, CHR 0xE4, CHR 0xBC,
         CHR 0x9A, CHR 0xE5, CHR 0x91, CHR 0x98, CHR 0xE5, CHR 0xB7, CHR 0xB2, CHR 0xE5,
         CHR 0x88, CHR 0xB0, CHR 0xE6, CHR 0x9C, CHR 0x9F],
      expired_prefix @
        [CHR 0xE8, CHR 0xAF, CHR 0xB7, CHR 0xE8, CHR 0x81, CHR 0x94, CHR 0xE7, CHR 0xB3,
         CHR 0xBB, CHR 0xE5, CHR 0xAE, CHR 0xA2, CHR 0xE6, CHR 0x9C, CHR 0x8D, CHR 0xE7,
         CHR 0xBB, CHR 0xAD, CHR 0xE8, CHR 0xB4, CHR 0xB9],
      expired_prefix @
        [CHR 0xE5, CHR 0xBE, CHR 0xAE, CHR 0xE4, CHR 0xBF, CHR 0xA1] @ '' EX3116'']"

definition expired_name :: string where
  "expired_name =
     [CHR 0xE8, CHR 0xAE, CHR 0xA2, CHR 0xE9, CHR 0x98, CHR 0x85, CHR 0xE5, CHR 0xB7,
      CHR 0xB2, CHR 0xE5, CHR 0x88, CHR 0xB0, CHR 0xE6, CHR 0x9C, CHR 0x9F]"

subsection \<open>Token and profile identifier (lines 50-61)\<close>

definition strip_sub :: "string \<Rightarrow> string" where
  \<comment> \<open>\<open>pathname.replace(/^\/sub\//, '/')\<close>\<close>
  "strip_sub p = (if startsWith p ''/sub/'' then ''/'' @ drop 5 p else p)"

definition pathSegments :: "request \<Rightarrow> string list" where
  "pathSegments r =
     filter (\<lambda>seg. seg \<noteq> []) (split_str CHR ''/'' (strip_sub (pathname (req_url r))))"

definition resolveToken :: "request \<Rightarrow> string option \<times> string option" where
  "resolveToken r =
     (case pathSegments r of
        [] \<Rightarrow> (sp_get (searchParams (req_url r)) ''token'', None)
      | [t] \<Rightarrow> (Some t, None)
      | t # p # _ \<Rightarrow> (Some t, Some p))"

subsection \<open>Authorization and node selection (lines 63-135)\<close>

record selection =
  token :: string
  profileIdentifier :: "string option"
  targetMisubs :: "entry list"
  subName :: "string option"
  effectiveSubConverter :: "string option"
  effectiveSubConfig :: "string option"
  isProfileExpired :: bool

definition find_profile :: "profile list \<Rightarrow> string \<Rightarrow> profile option" where
  "find_profile ps pid =
     List.find (\<lambda>p. (\<not> falsy (p_customId p) \<and> p_customId p = Some pid) \<or> p_id p = pid) ps"

definition expired :: "env \<Rightarrow> profile \<Rightarrow> bool" where
  \<comment> \<open>lines 81-87: \<open>now > expiryDate\<close>, false against an invalid date\<close>
  "expired E p =
     (case p_expiresAt p of
        None \<Rightarrow> False
      | Some s \<Rightarrow> s \<noteq> [] \<and> (case dateValue E s of None \<Rightarrow> False | Some t \<Rightarrow> now E > t))"

definition expiredEntries :: "entry list" where
  \<comment> \<open>lines 97-102\<close>
  "expiredEntries =
     map (\<lambda>(index, node).
            \<lparr>e_id = ''expired-node-'' @ show_nat index, e_url = node, e_name = expired_name,
             e_enabled = False, e_userInfo = None, e_isExpiredNode = True\<rparr>)
         (enumerate 0 EXPIRED_NODES)"

definition belongsToProfile :: "profile \<Rightarrow> entry \<Rightarrow> bool" where
  \<comment> \<open>lines 110-115\<close>
  "belongsToProfile p item =
     (let isSubscription = startsWith (e_url item) ''http'';
          isManualNode = \<not> isSubscription
      in (isSubscription \<and> e_id item \<in> set (p_subscriptions p)) \<or>
         (isManualNode \<and> e_id item \<in> set (p_manualNodes p)))"

definition override :: "string option \<Rightarrow> string option \<Rightarrow> string option" where
  \<comment> \<open>lines 121-124: \<open>own?.trim() !== '' ? own : global\<close>; \<open>own?.trim()\<close> of an absent
      value is \<open>undefined\<close>, which differs from \<open>''\<close>\<close>
  "override own global =
     (if (case own of None \<Rightarrow> True | Some s \<Rightarrow> trim s \<noteq> []) then own else global)"

definition profileMode :: "env \<Rightarrow> string option \<Rightarrow> string \<Rightarrow> reply + selection" where
  "profileMode E tok pid =
     (case tok of
        None \<Rightarrow> Inl (Reply InvalidProfileToken (text_response 403 ''Invalid Profile Token''))
      | Some t \<Rightarrow>
          if t = [] \<or> Some t \<noteq> profileToken (config E)
          then Inl (Reply InvalidProfileToken (text_response 403 ''Invalid Profile Token''))
          else (case find_profile (allProfiles E) pid of
            None \<Rightarrow> Inl (Reply ProfileNotFound (text_response 404 ''Profile not found or disabled''))
          | Some p \<Rightarrow>
              if \<not> p_enabled p
              then Inl (Reply ProfileNotFound (text_response 404 ''Profile not found or disabled''))
              else Inr \<lparr>token = t, profileIdentifier = Some pid,
                        targetMisubs =
                          (if expired E p then expiredEntries
                           else filter (\<lambda>item. e_enabled item \<and> belongsToProfile p item)
                                  (allMisubs E)),
                        subName = Some (p_name p),
                        effectiveSubConverter = override (p_subConverter p) (subConverter (config E)),
                        effectiveSubConfig = override (p_subConfig p) (subConfig (config E)),
                        isProfileExpired = expired E p\<rparr>))"

definition directMode :: "env \<Rightarrow> string option \<Rightarrow> reply + selection" where
  "directMode E tok =
     (case tok of
        None \<Rightarrow> Inl (Reply InvalidToken (text_response 403 ''Invalid Token''))
      | Some t \<Rightarrow>
          if t = [] \<or> Some t \<noteq> mytoken (config E)
          then Inl (Reply InvalidToken (text_response 403 ''Invalid Token''))
          else Inr \<lparr>token = t, profileIdentifier = None,
                    targetMisubs = filter e_enabled (allMisubs E),
                    subName = FileName (config E),
                    effectiveSubConverter = subConverter (config E),
                    effectiveSubConfig = subConfig (config E),
                    isProfileExpired = False\<rparr>)"

definition selectNodes :: "env \<Rightarrow> string option \<Rightarrow> string option \<Rightarrow> reply + selection" where
  \<comment> \<open>\<open>if (profileIdentifier) ... else ...\<close>\<close>
  "selectNodes E tok pid =
     (case pid of
        None \<Rightarrow> directMode E tok
      | Some p \<Rightarrow> if p = [] then directMode E tok else profileMode E tok p)"

subsection \<open>Target format (lines 144-184)\<close>

definition supportedFormats :: "string list" where
  "supportedFormats = [''clash'', ''singbox'', ''surge'', ''loon'', ''base64'', ''v2ray'', ''trojan'']"

fun flagFormat :: "params \<Rightarrow> string list \<Rightarrow> string option" where
  \<comment> \<open>the loop of lines 147-152, leaving at the first flag present\<close>
  "flagFormat ps [] = None"
| "flagFormat ps (format # formats) =
     (if sp_has ps format
      then Some (if format = ''v2ray'' \<or> format = ''trojan'' then ''base64'' else format)
      else flagFormat ps formats)"

definition normalized :: "string \<Rightarrow> string" where
  \<comment> \<open>the format a bare flag stands for\<close>
  "normalized f = (if f = ''v2ray'' \<or> f = ''trojan'' then ''base64'' else f)"

definition uaMapping :: "(string \<times> string) list" where
  "uaMapping =
     [(''flyclash'', ''clash''), (''mihomo'', ''clash''), (''clash.meta'', ''clash''),
      (''clash-verge'', ''clash''), (''meta'', ''clash''), (''stash'', ''clash''),
      (''nekoray'', ''clash''), (''sing-box'', ''singbox''), (''shadowrocket'', ''base64''),
      (''v2rayn'', ''base64''), (''v2rayng'', ''base64''), (''surge'', ''surge''),
      (''loon'', ''loon''), (''quantumult%20x'', ''quanx''), (''quantumult'', ''quanx''),
      (''clash'', ''clash'')]"

fun uaFormat :: "string \<Rightarrow> (string \<times> string) list \<Rightarrow> string option" where
  \<comment> \<open>the loop of lines 176-181\<close>
  "uaFormat ua [] = None"
| "uaFormat ua ((keyword, format) # rest) =
     (if str_includes ua keyword then Some format else uaFormat ua rest)"

definition userAgentHeader :: "request \<Rightarrow> string" where
  \<comment> \<open>line 36\<close>
  "userAgentHeader r =
     (let h = headers_get (req_headers r) ''User-Agent'' in if falsy h then ''Unknown'' else toStr h)"

definition negotiateFormat :: "request \<Rightarrow> string" where
  "negotiateFormat r =
     (let ps = searchParams (req_url r);
          t1 = sp_get ps ''target'';
          t2 = (if falsy t1 then flagFormat ps supportedFormats else t1);
          t3 = (if falsy t2 then uaFormat (toLowerCase (userAgentHeader r)) uaMapping else t2)
      in if falsy t3 then ''base64'' else toStr t3)"

subsection \<open>Access notification (lines 187-204)\<close>

definition notify_title :: string where
  "notify_title =
     [CHR 0xF0, CHR 0x9F, CHR 0x9B, CHR 0xB0, CHR 0xEF, CHR 0xB8, CHR 0x8F] @ '' *'' @
     [CHR 0xE8, CHR 0xAE, CHR 0xA2, CHR 0xE9, CHR 0x98, CHR 0x85, CHR 0xE8, CHR 0xA2,
      CHR 0xAB, CHR 0xE8, CHR 0xAE, CHR 0xBF, CHR 0xE9, CHR 0x97, CHR 0xAE] @ ''*''"

definition label :: "string \<Rightarrow> string \<Rightarrow> string" where
  \<comment> \<open>one field of the message: the label between asterisks, the value between backticks\<close>
  "label l v = ''*'' @ l @ '':* '' @ [backtick] @ v @ [backtick]"

definition additionalData :: "env \<Rightarrow> request \<Rightarrow> selection \<Rightarrow> string \<Rightarrow> string" where
  "additionalData E r sel targetFormat =
     label [CHR 0xE5, CHR 0x9F, CHR 0x9F, CHR 0xE5, CHR 0x90, CHR 0x8D] (hostname (req_url r)) @
     [newline] @
     label [CHR 0xE5, CHR 0xAE, CHR 0xA2, CHR 0xE6, CHR 0x88, CHR 0xB7, CHR 0xE7, CHR 0xAB, CHR 0xAF]
       (userAgentHeader r) @
     [newline] @
     label [CHR 0xE8, CHR 0xAF, CHR 0xB7, CHR 0xE6, CHR 0xB1, CHR 0x82, CHR 0xE6, CHR 0xA0,
            CHR 0xBC, CHR 0xE5, CHR 0xBC, CHR 0x8F] targetFormat @
     (case profileIdentifier sel of
        None \<Rightarrow> []
      | Some pid \<Rightarrow>
          [newline] @
          label [CHR 0xE8, CHR 0xAE, CHR 0xA2, CHR 0xE9, CHR 0x98, CHR 0x85, CHR 0xE7, CHR 0xBB,
                 CHR 0x84] (toStr (subName sel)) @
          (case find_profile (allProfiles E) pid of
             None \<Rightarrow> []
           | Some p \<Rightarrow>
               if falsy (p_expiresAt p) then []
               else [newline] @
                    label [CHR 0xE5, CHR 0x88, CHR 0xB0, CHR 0xE6, CHR 0x9C, CHR 0x9F, CHR 0xE6,
                           CHR 0x97, CHR 0xB6, CHR 0xE9, CHR 0x97, CHR 0xB4]
                      (toLocaleString E (toStr (p_expiresAt p)))))"

definition header_or :: "request \<Rightarrow> string \<Rightarrow> string \<Rightarrow> string" where
  \<comment> \<open>\<open>request.headers.get(name) || dflt\<close>\<close>
  "header_or r name dflt =
     (let h = headers_get (req_headers r) name in if falsy h then dflt else toStr h)"

definition notify :: "env \<Rightarrow> request \<Rightarrow> selection \<Rightarrow> string \<Rightarrow> notification option" where
  \<comment> \<open>the call handed to \<open>context.waitUntil\<close>, if any\<close>
  "notify E r sel targetFormat =
     (if \<not> sp_has (searchParams (req_url r)) ''callback_token''
      then Some \<lparr>n_config = config E, n_title = notify_title,
                 n_clientIp = header_or r ''CF-Connecting-IP'' ''N/A'',
                 n_additionalData = additionalData E r sel targetFormat\<rparr>
      else None)"

subsection \<open>Remaining traffic (lines 206-234)\<close>

definition num_or_0 :: "int option \<Rightarrow> int" where
  \<comment> \<open>\<open>v || 0\<close>\<close>
  "num_or_0 v = (case v of None \<Rightarrow> 0 | Some n \<Rightarrow> n)"

definition has_quota :: "entry \<Rightarrow> bool" where
  \<comment> \<open>\<open>sub.enabled && sub.userInfo && sub.userInfo.total > 0\<close>\<close>
  "has_quota sub =
     (e_enabled sub \<and>
      (case e_userInfo sub of
         None \<Rightarrow> False
       | Some u \<Rightarrow> (case total u of None \<Rightarrow> False | Some t \<Rightarrow> t > 0)))"

definition remaining :: "entry \<Rightarrow> int" where
  \<comment> \<open>lines 221-222, for an entry that has a quota\<close>
  "remaining sub =
     (case e_userInfo sub of
        None \<Rightarrow> 0
      | Some u \<Rightarrow> num_or_0 (total u) - (num_or_0 (upload u) + num_or_0 (download u)))"

definition totalRemainingBytes :: "entry list \<Rightarrow> int" where
  \<comment> \<open>the \<open>reduce\<close> of lines 219-226\<close>
  "totalRemainingBytes subs =
     foldl (\<lambda>acc sub. if has_quota sub then acc + max 0 (remaining sub) else acc) 0 subs"

definition traffic_label :: string where
  "traffic_label =
     [CHR 0xE6, CHR 0xB5, CHR 0x81, CHR 0xE9, CHR 0x87, CHR 0x8F, CHR 0xE5, CHR 0x89,
      CHR 0xA9, CHR 0xE4, CHR 0xBD, CHR 0x99] @ '' '' @ [CHR 0xE2, CHR 0x89, CHR 0xAB] @ '' ''"

definition trafficNode :: "env \<Rightarrow> int \<Rightarrow> string" where
  \<comment> \<open>lines 229-232\<close>
  "trafficNode E n =
     ''trojan://00000000-0000-0000-0000-000000000000@127.0.0.1:443#'' @
     encodeURIComponent (traffic_label @ formatBytes E n)"

definition prependedContentForSubconverter :: "env \<Rightarrow> selection \<Rightarrow> string" where
  "prependedContentForSubconverter E sel =
     (if isProfileExpired sel then []
      else (let n = totalRemainingBytes (targetMisubs sel) in
              if n > 0 then trafficNode E n else []))"

subsection \<open>Node list and Base64 output (lines 236-272)\<close>

definition prefixSettingsOf :: "env \<Rightarrow> selection \<Rightarrow> string option" where
  \<comment> \<open>line 242\<close>
  "prefixSettingsOf E sel =
     (case profileIdentifier sel of
        None \<Rightarrow> None
      | Some pid \<Rightarrow>
          (case find_profile (allProfiles E) pid of None \<Rightarrow> None | Some p \<Rightarrow> p_prefixSettings p))"

definition combinedNodeList :: "env \<Rightarrow> request \<Rightarrow> selection \<Rightarrow> string" where
  "combinedNodeList E r sel =
     generateCombinedNodeList E r (config E) (userAgentHeader r) (targetMisubs sel)
       (prependedContentForSubconverter E sel) (prefixSettingsOf E sel)"

definition expiredContent :: string where
  \<comment> \<open>line 259\<close>
  "expiredContent = join [newline] EXPIRED_NODES @ [newline]"

definition base64Response :: "env \<Rightarrow> request \<Rightarrow> selection \<Rightarrow> response" where
  "base64Response E r sel =
     (let contentToEncode =
            (if isProfileExpired sel then expiredContent else combinedNodeList E r sel)
      in \<lparr>status = 200, statusText = [], headers = plain_headers, body = btoa contentToEncode\<rparr>)"

subsection \<open>Callback and converter (lines 280-342)\<close>

definition callbackPath :: "selection \<Rightarrow> string" where
  "callbackPath sel =
     (case profileIdentifier sel of
        None \<Rightarrow> ''/'' @ token sel
      | Some pid \<Rightarrow> ''/'' @ token sel @ ''/'' @ pid)"

definition callbackUrl :: "env \<Rightarrow> request \<Rightarrow> selection \<Rightarrow> string" where
  "callbackUrl E r sel =
     protocol (req_url r) @ ''//'' @ host (req_url r) @ callbackPath sel @
     ''?target=base64&callback_token='' @ getCallbackToken E"

definition callbackResponse :: "env \<Rightarrow> request \<Rightarrow> selection \<Rightarrow> response" where
  \<comment> \<open>lines 280 and 289-294\<close>
  "callbackResponse E r sel =
     \<lparr>status = 200, statusText = [], headers = plain_headers, body = btoa (combinedNodeList E r sel)\<rparr>"

definition wantsConfig :: "string \<Rightarrow> string option \<Rightarrow> bool" where
  \<comment> \<open>the condition of lines 301-304\<close>
  "wantsConfig targetFormat cfg =
     ((targetFormat = ''clash'' \<or> targetFormat = ''loon'' \<or> targetFormat = ''surge'') \<and>
      (case cfg of None \<Rightarrow> True | Some c \<Rightarrow> trim c \<noteq> []))"

definition converterParams :: "env \<Rightarrow> request \<Rightarrow> selection \<Rightarrow> string \<Rightarrow> params \<Rightarrow> params" where
  \<comment> \<open>lines 298-308, on the parameters the converter's URL starts with\<close>
  "converterParams E r sel targetFormat ps0 =
     (let ps1 = sp_set ps0 ''target'' targetFormat;
          ps2 = sp_set ps1 ''url'' (callbackUrl E r sel);
          ps3 = (if wantsConfig targetFormat (effectiveSubConfig sel)
                 then sp_set ps2 ''config'' (toStr (effectiveSubConfig sel)) else ps2)
      in sp_set ps3 ''new_name'' ''true'')"

definition subconverterUrl :: "env \<Rightarrow> request \<Rightarrow> selection \<Rightarrow> string \<Rightarrow> url option" where
  \<comment> \<open>the URL handed to \<open>fetch\<close>; \<open>None\<close> when line 297 throws\<close>
  "subconverterUrl E r sel targetFormat =
     (case newURL E (''https://'' @ toStr (effectiveSubConverter sel) @ ''/sub'') of
        None \<Rightarrow> None
      | Some u \<Rightarrow>
          Some (u\<lparr>searchParams := converterParams E r sel targetFormat (searchParams u)\<rparr>))"

definition bad_gateway :: "string \<Rightarrow> reply" where
  \<comment> \<open>lines 337-342\<close>
  "bad_gateway message =
     Reply ConverterError (text_response 502 (''Error connecting to subconverter: '' @ message))"

definition relay :: "env \<Rightarrow> selection \<Rightarrow> string + upstream \<Rightarrow> reply" where
  \<comment> \<open>lines 310-342; a \<open>Response\<close> with a body cannot have the status 204 or 205, the
      constructor throws inside the \<open>try\<close>\<close>
  "relay E sel res =
     (case res of
        Inl message \<Rightarrow> bad_gateway message
      | Inr up \<Rightarrow>
          if \<not> (200 \<le> up_status up \<and> up_status up \<le> 299)
          then bad_gateway (''Subconverter service returned status: '' @ show_nat (up_status up) @
                            ''. Body: '' @ up_body up)
          else if up_status up = 204 \<or> up_status up = 205 then bad_gateway (nullBodyMessage E)
          else Reply ConverterRelay
                 \<lparr>status = up_status up, statusText = up_statusText up,
                  headers =
                    headers_set
                      (headers_set
                         (headers_set (up_headers up) ''Content-Disposition''
                            (''attachment; filename*=utf-8'' @ [CHR 0x27, CHR 0x27] @
                             encodeURIComponent (toStr (subName sel))))
                         ''Content-Type'' ''text/plain; charset=utf-8'')
                      ''Cache-Control'' ''no-store, no-cache'',
                  body = up_body up\<rparr>)"

definition convert :: "env \<Rightarrow> request \<Rightarrow> selection \<Rightarrow> string \<Rightarrow> reply" where
  \<comment> \<open>lines 280-342: the request is not for \<open>base64\<close>\<close>
  "convert E r sel targetFormat =
     (if sp_get (searchParams (req_url r)) ''callback_token'' = Some (getCallbackToken E)
      then Reply CallbackOutput (callbackResponse E r sel)
      else (case subconverterUrl E r sel targetFormat of
              None \<Rightarrow> Uncaught
            | Some u \<Rightarrow> relay E sel (fetch E u)))"

subsection \<open>\<open>handleMisubRequest\<close>\<close>

definition blank :: "string option \<Rightarrow> bool" where
  \<comment> \<open>line 137: \<open>!v || v.trim() === ''\<close>\<close>
  "blank v = (case v of None \<Rightarrow> True | Some s \<Rightarrow> s = [] \<or> trim s = [])"

definition respond :: "env \<Rightarrow> request \<Rightarrow> selection \<Rightarrow> reply \<times> notification option" where
  \<comment> \<open>lines 137-342, after authorization and selection\<close>
  "respond E r sel =
     (if blank (effectiveSubConverter sel)
      then (Reply NotConfigured (text_response 500 ''Subconverter backend is not configured.''),
            None)
      else (let targetFormat = negotiateFormat r in
              (if targetFormat = ''base64'' then Reply Base64Output (base64Response E r sel)
               else convert E r sel targetFormat,
               notify E r sel targetFormat)))"

definition handleMisubRequest :: "env \<Rightarrow> request \<Rightarrow> reply \<times> notification option" where
  "handleMisubRequest E r =
     (case resolveToken r of
        (tok, pid) \<Rightarrow>
          (case selectNodes E tok pid of
             Inl rejected \<Rightarrow> (rejected, None)
           | Inr sel \<Rightarrow> respond E r sel))"

subsection \<open>Reading an outcome\<close>

definition reply_status :: "reply \<Rightarrow> nat option" where
  "reply_status rp = (case rp of Reply x resp \<Rightarrow> Some (status resp) | Uncaught \<Rightarrow> None)"

definition reply_body :: "reply \<Rightarrow> string option" where
  "reply_body rp = (case rp of Reply x resp \<Rightarrow> Some (body resp) | Uncaught \<Rightarrow> None)"

definition reply_exit :: "reply \<Rightarrow> exit option" where
  "reply_exit rp = (case rp of Reply x resp \<Rightarrow> Some x | Uncaught \<Rightarrow> None)"

definition rejected :: "exit option set" where
  \<comment> \<open>the returns that come before format negotiation\<close>
  "rejected = {Some InvalidProfileToken, Some ProfileNotFound, Some InvalidToken, Some NotConfigured}"

definition without_callback_token :: "request \<Rightarrow> request" where
  \<comment> \<open>the request with every \<open>callback_token\<close> pair taken out of its query string\<close>
  "without_callback_token r =
     r\<lparr>req_url := (req_url r)\<lparr>searchParams :=
          filter (\<lambda>q. fst q \<noteq> ''callback_token'') (searchParams (req_url r))\<rparr>\<rparr>"

section \<open>Example inputs\<close>

text \<open>
  A small deployment on which the theorems below are instantiated: three stored entries,
  an expired profile \<open>promoA\<close> and an active profile \<open>teamB\<close> that has no \<open>subConfig\<close>
  field, with simple stand-ins for the collaborators.
\<close>

definition demo_settings :: settings where
  "demo_settings =
     \<lparr>mytoken = Some ''abc123'', profileToken = Some ''profiles'',
      subConverter = Some ''url.v1.mk'', subConfig = Some ''https://example.com/rules.ini'',
      FileName = Some ''MiSub''\<rparr>"

definition entry_s1 :: entry where
  "entry_s1 =
     \<lparr>e_id = ''s1'', e_url = ''https://a.example/feed'', e_name = ''A'', e_enabled = True,
      e_userInfo = Some \<lparr>upload = Some 10, download = Some 20, total = Some 100\<rparr>,
      e_isExpiredNode = False\<rparr>"

definition entry_n1 :: entry where
  "entry_n1 =
     \<lparr>e_id = ''n1'', e_url = ''ss://YQ==@192.0.2.1:443#n1'', e_name = ''N'', e_enabled = True,
      e_userInfo = None, e_isExpiredNode = False\<rparr>"

definition entry_s2 :: entry where
  "entry_s2 =
     \<lparr>e_id = ''s2'', e_url = ''https://b.example/feed'', e_name = ''B'', e_enabled = False,
      e_userInfo = None, e_isExpiredNode = False\<rparr>"

definition demo_entries :: "entry list" where
  "demo_entries = [entry_s1, entry_n1, entry_s2]"

definition promoA :: profile where
  "promoA =
     \<lparr>p_id = ''p1'', p_customId = Some ''promoA'', p_name = ''Promo A'', p_enabled = True,
      p_expiresAt = Some ''2020-01-01T00:00:00Z'', p_subscriptions = [''s1''],
      p_manualNodes = [''n1''], p_subConverter = Some [], p_subConfig = Some [],
      p_prefixSettings = None\<rparr>"

definition teamB :: profile where
  "teamB =
     \<lparr>p_id = ''p2'', p_customId = Some ''teamB'', p_name = ''Team B'', p_enabled = True,
      p_expiresAt = None, p_subscriptions = [''s1'', ''s2''], p_manualNodes = [''n1''],
      p_subConverter = Some ''conv.example'', p_subConfig = None, p_prefixSettings = None\<rparr>"

definition demo_compose ::
  "request \<Rightarrow> settings \<Rightarrow> string \<Rightarrow> entry list \<Rightarrow> string \<Rightarrow> string option \<Rightarrow> string" where
  "demo_compose r c ua es pre ps = join [newline] ((if pre = [] then [] else [pre]) @ map e_url es)"

definition demo_newURL :: "string \<Rightarrow> url option" where
  \<comment> \<open>for \<open>https://HOST/sub\<close> with a plain host name\<close>
  "demo_newURL s =
     Some \<lparr>protocol = ''https:'', host = drop 8 (take (length s - 4) s),
           hostname = drop 8 (take (length s - 4) s), pathname = ''/sub'', searchParams = []\<rparr>"

definition demo_env :: env where
  "demo_env =
     \<lparr>config = demo_settings, allMisubs = demo_entries, allProfiles = [promoA, teamB],
      now = 1800000000000,
      dateValue = (\<lambda>s. if s = ''2020-01-01T00:00:00Z'' then Some 1577836800000 else None),
      toLocaleString = (\<lambda>s. s),
      formatBytes = (\<lambda>n. show_nat (nat n) @ '' B''),
      getCallbackToken = ''cbtok'',
      generateCombinedNodeList = demo_compose,
      newURL = demo_newURL,
      fetch = (\<lambda>u. Inr \<lparr>up_status = 200, up_statusText = ''OK'', up_headers = [],
                          up_body = ''converted''\<rparr>),
      nullBodyMessage = ''Response with null body status cannot have body''\<rparr>"

definition anonymous_request :: "string \<Rightarrow> params \<Rightarrow> request" where
  \<comment> \<open>a request without a \<open>User-Agent\<close> header\<close>
  "anonymous_request path ps =
     \<lparr>req_url = \<lparr>protocol = ''https:'', host = ''example.com'', hostname = ''example.com'',
                 pathname = path, searchParams = ps\<rparr>,
      req_headers = []\<rparr>"

definition demo_request :: "string \<Rightarrow> params \<Rightarrow> request" where
  "demo_request path ps =
     \<lparr>req_url = \<lparr>protocol = ''https:'', host = ''example.com'', hostname = ''example.com'',
                 pathname = path, searchParams = ps\<rparr>,
      req_headers = [(''user-agent'', ''Shadowrocket/1.2'')]\<rparr>"

definition teamB_selection :: selection where
  \<comment> \<open>what authorization and selection give for \<open>/sub/profiles/teamB\<close>\<close>
  "teamB_selection =
     \<lparr>token = ''profiles'', profileIdentifier = Some ''teamB'',
      targetMisubs = [entry_s1, entry_n1], subName = Some ''Team B'',
      effectiveSubConverter = Some ''conv.example'', effectiveSubConfig = None,
      isProfileExpired = False\<rparr>"

definition promoA_selection :: selection where
  \<comment> \<open>what authorization and selection give for \<open>/sub/profiles/promoA\<close>\<close>
  "promoA_selection =
     \<lparr>token = ''profiles'', profileIdentifier = Some ''promoA'',
      targetMisubs = expiredEntries, subName = Some ''Promo A'',
      effectiveSubConverter = Some ''url.v1.mk'',
      effectiveSubConfig = Some ''https://example.com/rules.ini'',
      isProfileExpired = True\<rparr>"

definition direct_selection :: selection where
  \<comment> \<open>what authorization and selection give for \<open>/sub/abc123\<close>\<close>
  "direct_selection =
     \<lparr>token = ''abc123'', profileIdentifier = None,
      targetMisubs = [entry_s1, entry_n1], subName = Some ''MiSub'',
      effectiveSubConverter = Some ''url.v1.mk'',
      effectiveSubConfig = Some ''https://example.com/rules.ini'',
      isProfileExpired = False\<rparr>"

definition no_backend_env :: env where
  \<comment> \<open>the same deployment with the global converter backend cleared\<close>
  "no_backend_env = demo_env\<lparr>config := demo_settings\<lparr>subConverter := Some []\<rparr>\<rparr>"

definition sub_token_env :: env where
  \<comment> \<open>the same deployment with \<open>sub\<close> as the profile token\<close>
  "sub_token_env = demo_env\<lparr>config := demo_settings\<lparr>profileToken := Some ''sub''\<rparr>\<rparr>"

definition converter_request :: "string \<Rightarrow> params \<Rightarrow> request" where
  \<comment> \<open>a request as the converter sends it, under its own \<open>User-Agent\<close>\<close>
  "converter_request path ps =
     \<lparr>req_url = \<lparr>protocol = ''https:'', host = ''example.com'', hostname = ''example.com'',
                 pathname = path, searchParams = ps\<rparr>,
      req_headers = [(''user-agent'', ''subconverter/v0.9.0'')]\<rparr>"

definition token_compose ::
  "request \<Rightarrow> settings \<Rightarrow> string \<Rightarrow> entry list \<Rightarrow> string \<Rightarrow> string option \<Rightarrow> string" where
  \<comment> \<open>a node-list collaborator that reads the query string of the request it is handed\<close>
  "token_compose r c ua es pre ps =
     ''# '' @ toStr (sp_get (searchParams (req_url r)) ''callback_token'') @ [newline] @
     demo_compose r c ua es pre ps"

definition token_env :: env where
  "token_env = demo_env\<lparr>generateCombinedNodeList := token_compose\<rparr>"



section \<open>Properties\<close>

subsection \<open>Base64 text decodes to the bytes it encodes\<close>

lemma pack_div: "b < n \<Longrightarrow> (a * n + b) div n = (a::nat)"
  by simp

lemma pack_mod: "b < n \<Longrightarrow> (a * n + b) mod n = (b::nat)"
  by simp

lemma pack_lt:
  fixes a b m n :: nat
  assumes "a < m" "b < n"
  shows "a * n + b < m * n"
proof -
  have "a * n + b < a * n + n" using assms(2) by simp
  also have "\<dots> = Suc a * n" by simp
  also have "\<dots> \<le> m * n" using assms(1) by (intro mult_le_mono1) simp
  finally show ?thesis .
qed

lemma hi4: "(y::nat) < 256 \<Longrightarrow> y div 16 < 16"
  by (simp add: less_mult_imp_div_less)

lemma hi2: "(z::nat) < 256 \<Longrightarrow> z div 64 < 4"
  by (simp add: less_mult_imp_div_less)

lemma hi6: "(x::nat) < 256 \<Longrightarrow> x div 4 < 64"
  by (simp add: less_mult_imp_div_less)

lemma b64_table:
  "list_all (\<lambda>i. b64_index (b64_char i) = Some i \<and> b64_char i \<noteq> CHR ''='') [0 ..< 64]"
  by code_simp

lemma b64_index_char: "i < 64 \<Longrightarrow> b64_index (b64_char i) = Some i"
  using b64_table by (simp add: list_all_iff)

lemma b64_char_not_pad: "i < 64 \<Longrightarrow> b64_char i \<noteq> CHR ''=''"
  using b64_table by (simp add: list_all_iff)

lemma sextet2: "(y::nat) < 256 \<Longrightarrow> (x mod 4) * 16 + y div 16 < 64"
  using pack_lt[of "x mod 4" 4 "y div 16" 16] by (simp add: hi4)

lemma sextet3: "(z::nat) < 256 \<Longrightarrow> (y mod 16) * 4 + z div 64 < 64"
  using pack_lt[of "y mod 16" 16 "z div 64" 4] by (simp add: hi2)

lemma sextet2_pad: "((x::nat) mod 4) * 16 < 64"
  using pack_lt[of "x mod 4" 4 0 16] by simp

lemma sextet3_pad: "((y::nat) mod 16) * 4 < 64"
  using pack_lt[of "y mod 16" 16 0 4] by simp

lemma byte1: "(y::nat) < 256 \<Longrightarrow> x div 4 * 4 + ((x mod 4) * 16 + y div 16) div 16 = x"
  by (simp add: pack_div hi4)

lemma byte2:
  "(y::nat) < 256 \<Longrightarrow> (z::nat) < 256 \<Longrightarrow>
   ((x mod 4) * 16 + y div 16) mod 16 * 16 + ((y mod 16) * 4 + z div 64) div 4 = y"
  by (simp add: pack_div pack_mod hi4 hi2)

lemma byte3: "(z::nat) < 256 \<Longrightarrow> ((y mod 16) * 4 + z div 64) mod 4 * 64 + z mod 64 = z"
  by (simp add: pack_mod hi2)

lemma byte2_pad: "(y::nat) < 256 \<Longrightarrow> ((x mod 4) * 16 + y div 16) mod 16 * 16 + y mod 16 = y"
  by (simp add: pack_mod hi4)

lemma atob_quad:
  assumes "i < 64" "j < 64" "k < 64" "l < 64"
  shows "atob (b64_char i # b64_char j # b64_char k # b64_char l # rest) =
         (case atob rest of
            None \<Rightarrow> None
          | Some bs \<Rightarrow>
              Some (char_of (i * 4 + j div 16) # char_of ((j mod 16) * 16 + k div 4) #
                    char_of ((k mod 4) * 64 + l) # bs))"
  using assms by (simp add: b64_index_char b64_char_not_pad split: option.splits)

lemma atob_pad1:
  assumes "i < 64" "j < 64" "k < 64" "k mod 4 = 0"
  shows "atob [b64_char i, b64_char j, b64_char k, CHR ''=''] =
         Some [char_of (i * 4 + j div 16), char_of ((j mod 16) * 16 + k div 4)]"
  using assms by (simp add: b64_index_char b64_char_not_pad)

lemma atob_pad2:
  assumes "i < 64" "j < 64" "j mod 16 = 0"
  shows "atob [b64_char i, b64_char j, CHR ''='', CHR ''=''] = Some [char_of (i * 4 + j div 16)]"
  using assms by (simp add: b64_index_char b64_char_not_pad)

lemma atob_btoa: "atob (btoa s) = Some s"
proof (induction s rule: btoa.induct)
  case 1
  show ?case by simp
next
  case (2 a)
  define x :: nat where "x = of_char a"
  have e: "btoa [a] = [b64_char (x div 4), b64_char ((x mod 4) * 16), CHR ''='', CHR ''='']"
    by (simp add: x_def Let_def)
  have "x < 256" by (simp add: x_def)
  then have "atob (btoa [a]) = Some [char_of (x div 4 * 4 + (x mod 4) * 16 div 16)]"
    unfolding e by (intro atob_pad2 hi6 sextet2_pad) simp_all
  also have "x div 4 * 4 + (x mod 4) * 16 div 16 = x" by simp
  finally show ?case by (simp add: x_def)
next
  case (3 a b)
  define x :: nat where "x = of_char a"
  define y :: nat where "y = of_char b"
  have e: "btoa [a, b] =
      [b64_char (x div 4), b64_char ((x mod 4) * 16 + y div 16), b64_char ((y mod 16) * 4), CHR ''='']"
    by (simp add: x_def y_def Let_def)
  have lt: "x < 256" "y < 256" by (simp_all add: x_def y_def)
  then have "atob (btoa [a, b]) =
      Some [char_of (x div 4 * 4 + ((x mod 4) * 16 + y div 16) div 16),
            char_of (((x mod 4) * 16 + y div 16) mod 16 * 16 + (y mod 16) * 4 div 4)]"
    unfolding e by (intro atob_pad1 hi6 sextet2 sextet3_pad) simp_all
  also have "x div 4 * 4 + ((x mod 4) * 16 + y div 16) div 16 = x"
    by (rule byte1) (rule lt)
  also have "((x mod 4) * 16 + y div 16) mod 16 * 16 + (y mod 16) * 4 div 4 = y"
    using byte2_pad[OF lt(2), of x] by simp
  finally show ?case by (simp add: x_def y_def)
next
  case (4 a b c rest)
  define x :: nat where "x = of_char a"
  define y :: nat where "y = of_char b"
  define z :: nat where "z = of_char c"
  have e: "btoa (a # b # c # rest) =
      b64_char (x div 4) # b64_char ((x mod 4) * 16 + y div 16) #
      b64_char ((y mod 16) * 4 + z div 64) # b64_char (z mod 64) # btoa rest"
    by (simp add: x_def y_def z_def Let_def)
  have lt: "x < 256" "y < 256" "z < 256" by (simp_all add: x_def y_def z_def)
  have "atob (btoa (a # b # c # rest)) =
      Some (char_of (x div 4 * 4 + ((x mod 4) * 16 + y div 16) div 16) #
            char_of (((x mod 4) * 16 + y div 16) mod 16 * 16 + ((y mod 16) * 4 + z div 64) div 4) #
            char_of (((y mod 16) * 4 + z div 64) mod 4 * 64 + z mod 64) # rest)"
    unfolding e
  proof (subst atob_quad)
    show "x div 4 < 64" by (rule hi6) (rule lt)
    show "(x mod 4) * 16 + y div 16 < 64" by (rule sextet2) (rule lt)
    show "(y mod 16) * 4 + z div 64 < 64" by (rule sextet3) (rule lt)
    show "z mod 64 < 64" by simp
  qed (simp only: "4.IH" option.case)
  also have "x div 4 * 4 + ((x mod 4) * 16 + y div 16) div 16 = x"
    by (rule byte1) (rule lt)
  also have "((x mod 4) * 16 + y div 16) mod 16 * 16 + ((y mod 16) * 4 + z div 64) div 4 = y"
    by (rule byte2) (rule lt)+
  also have "((y mod 16) * 4 + z div 64) mod 4 * 64 + z mod 64 = z"
    by (rule byte3) (rule lt)
  finally show ?case by (simp add: x_def y_def z_def)
qed

subsection \<open>Token resolution and authorization\<close>

lemma pathSegments_nonempty: "seg \<in> set (pathSegments r) \<Longrightarrow> seg \<noteq> []"
  by (simp add: pathSegments_def)

lemma resolveToken_profile:
  assumes "resolveToken r = (tok, Some pid)"
  shows "pid \<noteq> [] \<and> (\<exists>t. tok = Some t \<and> t \<noteq> [])"
proof (cases "pathSegments r")
  case Nil
  with assms show ?thesis by (simp add: resolveToken_def)
next
  case (Cons t rest)
  show ?thesis
  proof (cases rest)
    case Nil
    with Cons assms show ?thesis by (simp add: resolveToken_def)
  next
    case (Cons p rest')
    with \<open>pathSegments r = t # rest\<close> have "t \<in> set (pathSegments r)" "p \<in> set (pathSegments r)"
      by simp_all
    then have "t \<noteq> []" "p \<noteq> []" by (auto dest: pathSegments_nonempty)
    with Cons \<open>pathSegments r = t # rest\<close> assms show ?thesis
      by (auto simp: resolveToken_def)
  qed
qed

lemma directMode_forbidden:
  assumes "falsy tok \<or> tok \<noteq> mytoken (config E)"
  shows "directMode E tok = Inl (Reply InvalidToken (text_response 403 ''Invalid Token''))"
  using assms by (cases tok) (simp_all add: directMode_def falsy_def)

lemma profileMode_forbidden:
  assumes "falsy tok \<or> tok \<noteq> profileToken (config E)"
  shows "profileMode E tok pid =
         Inl (Reply InvalidProfileToken (text_response 403 ''Invalid Profile Token''))"
  using assms by (cases tok) (simp_all add: profileMode_def falsy_def)

text \<open>
  Claim C4.  A request in direct-token mode (no profile identifier) whose token is missing
  or differs from the configured direct token, and a request in profile mode whose token
  is missing or differs from the configured profile token, is answered with status 403,
  whatever its query parameters, headers and the stored data are.
\<close>

theorem invalid_token_forbidden:
  "(resolveToken r = (tok, None) \<and> (falsy tok \<or> tok \<noteq> mytoken (config E)) \<longrightarrow>
      handleMisubRequest E r = (Reply InvalidToken (text_response 403 ''Invalid Token''), None) \<and>
      reply_status (fst (handleMisubRequest E r)) = Some 403) \<and>
   (resolveToken r = (tok, Some pid) \<and> (falsy tok \<or> tok \<noteq> profileToken (config E)) \<longrightarrow>
      handleMisubRequest E r =
        (Reply InvalidProfileToken (text_response 403 ''Invalid Profile Token''), None) \<and>
      reply_status (fst (handleMisubRequest E r)) = Some 403)"
proof (intro conjI impI)
  assume a: "resolveToken r = (tok, None) \<and> (falsy tok \<or> tok \<noteq> mytoken (config E))"
  then show d: "handleMisubRequest E r = (Reply InvalidToken (text_response 403 ''Invalid Token''), None)"
    by (simp add: handleMisubRequest_def selectNodes_def directMode_forbidden)
  show "reply_status (fst (handleMisubRequest E r)) = Some 403"
    by (simp add: d reply_status_def text_response_def)
next
  assume a: "resolveToken r = (tok, Some pid) \<and> (falsy tok \<or> tok \<noteq> profileToken (config E))"
  then have "pid \<noteq> []" using resolveToken_profile by blast
  with a show d: "handleMisubRequest E r =
        (Reply InvalidProfileToken (text_response 403 ''Invalid Profile Token''), None)"
    by (simp add: handleMisubRequest_def selectNodes_def profileMode_forbidden)
  show "reply_status (fst (handleMisubRequest E r)) = Some 403"
    by (simp add: d reply_status_def text_response_def)
qed

theorem invalid_token_forbidden_witness:
  "resolveToken (demo_request ''/sub/guess'' [(''clash'', [])]) = (Some ''guess'', None) \<and>
   Some ''guess'' \<noteq> mytoken (config demo_env) \<and>
   reply_status (fst (handleMisubRequest demo_env (demo_request ''/sub/guess'' [(''clash'', [])]))) =
     Some 403 \<and>
   resolveToken (demo_request ''/sub/guess/teamB'' []) = (Some ''guess'', Some ''teamB'') \<and>
   Some ''guess'' \<noteq> profileToken (config demo_env) \<and>
   reply_status (fst (handleMisubRequest demo_env (demo_request ''/sub/guess/teamB'' []))) = Some 403"
proof -
  have r1: "resolveToken (demo_request ''/sub/guess'' [(''clash'', [])]) = (Some ''guess'', None)"
    by code_simp
  have r2: "resolveToken (demo_request ''/sub/guess/teamB'' []) = (Some ''guess'', Some ''teamB'')"
    by code_simp
  have t1: "Some ''guess'' \<noteq> mytoken (config demo_env)"
    by (simp add: demo_env_def demo_settings_def)
  have t2: "Some ''guess'' \<noteq> profileToken (config demo_env)"
    by (simp add: demo_env_def demo_settings_def)
  show ?thesis
    using invalid_token_forbidden[of "demo_request ''/sub/guess'' [(''clash'', [])]" "Some ''guess''"
        demo_env "''teamB''"]
      invalid_token_forbidden[of "demo_request ''/sub/guess/teamB'' []" "Some ''guess''"
        demo_env "''teamB''"]
      r1 r2 t1 t2
    by (simp add: reply_status_def text_response_def)
qed

subsection \<open>Node selection and converter overrides\<close>

lemma selectNodes_cases:
  assumes "selectNodes E tok pido = Inr sel"
  shows "(profileIdentifier sel = None \<and> directMode E tok = Inr sel) \<or>
         (\<exists>pid. profileIdentifier sel = Some pid \<and> pid \<noteq> [] \<and> pido = Some pid \<and>
                profileMode E tok pid = Inr sel)"
proof (cases pido)
  case None
  with assms have d: "directMode E tok = Inr sel" by (simp add: selectNodes_def)
  then have "profileIdentifier sel = None"
    by (auto simp: directMode_def split: option.splits if_splits)
  with d show ?thesis by simp
next
  case (Some pid)
  show ?thesis
  proof (cases "pid = []")
    case True
    with Some assms have d: "directMode E tok = Inr sel" by (simp add: selectNodes_def)
    then have "profileIdentifier sel = None"
      by (auto simp: directMode_def split: option.splits if_splits)
    with d show ?thesis by simp
  next
    case False
    with Some assms have d: "profileMode E tok pid = Inr sel" by (simp add: selectNodes_def)
    then have "profileIdentifier sel = Some pid"
      by (auto simp: profileMode_def split: option.splits if_splits)
    with d False Some show ?thesis by simp
  qed
qed

lemma profileMode_Inr:
  assumes "profileMode E tok pid = Inr sel"
  shows "\<exists>t p. tok = Some t \<and> t \<noteq> [] \<and> Some t = profileToken (config E) \<and>
           find_profile (allProfiles E) pid = Some p \<and> p_enabled p \<and>
           sel = \<lparr>token = t, profileIdentifier = Some pid,
                  targetMisubs =
                    (if expired E p then expiredEntries
                     else filter (\<lambda>item. e_enabled item \<and> belongsToProfile p item) (allMisubs E)),
                  subName = Some (p_name p),
                  effectiveSubConverter = override (p_subConverter p) (subConverter (config E)),
                  effectiveSubConfig = override (p_subConfig p) (subConfig (config E)),
                  isProfileExpired = expired E p\<rparr>"
  using assms by (auto simp: profileMode_def split: option.splits if_splits)

lemma directMode_Inr:
  assumes "directMode E tok = Inr sel"
  shows "\<exists>t. tok = Some t \<and> t \<noteq> [] \<and> Some t = mytoken (config E) \<and>
           sel = \<lparr>token = t, profileIdentifier = None,
                  targetMisubs = filter e_enabled (allMisubs E),
                  subName = FileName (config E),
                  effectiveSubConverter = subConverter (config E),
                  effectiveSubConfig = subConfig (config E),
                  isProfileExpired = False\<rparr>"
  using assms by (auto simp: directMode_def split: option.splits if_splits)

text \<open>
  Claim C5.  Whenever authorization succeeds: in direct-token mode the selection is the
  stored entry list filtered by \<open>enabled\<close> alone; for a profile that is not expired it is
  the stored list filtered by: enabled, and (the url starts with \<open>http\<close> and the id is in
  the profile's \<open>subscriptions\<close>, or the url does not start with \<open>http\<close> and the id is
  in its \<open>manualNodes\<close>).  Being a \<open>filter\<close> of the stored list, the selection holds an
  entry exactly when the condition is true of it and keeps the stored order.
\<close>

theorem node_selection:
  assumes "selectNodes E tok pido = Inr sel"
  shows "(profileIdentifier sel = None \<longrightarrow>
            targetMisubs sel = filter (\<lambda>e. e_enabled e) (allMisubs E)) \<and>
         (\<forall>pid. profileIdentifier sel = Some pid \<longrightarrow>
            (\<exists>p. find_profile (allProfiles E) pid = Some p \<and> isProfileExpired sel = expired E p \<and>
               (\<not> expired E p \<longrightarrow>
                  targetMisubs sel =
                    filter (\<lambda>e. e_enabled e \<and>
                              ((startsWith (e_url e) ''http'' \<and> e_id e \<in> set (p_subscriptions p)) \<or>
                               (\<not> startsWith (e_url e) ''http'' \<and> e_id e \<in> set (p_manualNodes p))))
                      (allMisubs E)))) \<and>
         (\<not> isProfileExpired sel \<longrightarrow> subseq (targetMisubs sel) (allMisubs E))"
proof -
  from selectNodes_cases[OF assms] show ?thesis
  proof (elim disjE conjE exE)
    assume n: "profileIdentifier sel = None" and "directMode E tok = Inr sel"
    then obtain t where s: "sel = \<lparr>token = t, profileIdentifier = None,
                  targetMisubs = filter e_enabled (allMisubs E),
                  subName = FileName (config E),
                  effectiveSubConverter = subConverter (config E),
                  effectiveSubConfig = subConfig (config E),
                  isProfileExpired = False\<rparr>"
      using directMode_Inr by blast
    show ?thesis by (simp add: s)
  next
    fix pid
    assume n: "profileIdentifier sel = Some pid" and "profileMode E tok pid = Inr sel"
    then obtain t p where p: "find_profile (allProfiles E) pid = Some p"
      and s: "sel = \<lparr>token = t, profileIdentifier = Some pid,
                  targetMisubs =
                    (if expired E p then expiredEntries
                     else filter (\<lambda>item. e_enabled item \<and> belongsToProfile p item) (allMisubs E)),
                  subName = Some (p_name p),
                  effectiveSubConverter = override (p_subConverter p) (subConverter (config E)),
                  effectiveSubConfig = override (p_subConfig p) (subConfig (config E)),
                  isProfileExpired = expired E p\<rparr>"
      using profileMode_Inr by blast
    show ?thesis by (simp add: s p belongsToProfile_def Let_def)
  qed
qed

lemma override_cases:
  "(own = None \<longrightarrow> override own g = None) \<and>
   (\<forall>s. own = Some s \<and> trim s \<noteq> [] \<longrightarrow> override own g = Some s) \<and>
   (\<forall>s. own = Some s \<and> trim s = [] \<longrightarrow> override own g = g)"
  by (auto simp: override_def)

text \<open>
  Claim C3.  For a profile request that passed authorization, the effective converter
  backend is the profile's own \<open>subConverter\<close> when that field is absent or is not blank,
  and the global setting when the field is a blank string; the config string is resolved
  by the same rule from \<open>subConfig\<close>.
\<close>

theorem converter_override:
  assumes "selectNodes E tok pido = Inr sel" and "profileIdentifier sel = Some pid"
  shows "\<exists>p. find_profile (allProfiles E) pid = Some p \<and>
           (p_subConverter p = None \<longrightarrow> effectiveSubConverter sel = None) \<and>
           (\<forall>s. p_subConverter p = Some s \<and> trim s \<noteq> [] \<longrightarrow> effectiveSubConverter sel = Some s) \<and>
           (\<forall>s. p_subConverter p = Some s \<and> trim s = [] \<longrightarrow>
                effectiveSubConverter sel = subConverter (config E)) \<and>
           (p_subConfig p = None \<longrightarrow> effectiveSubConfig sel = None) \<and>
           (\<forall>s. p_subConfig p = Some s \<and> trim s \<noteq> [] \<longrightarrow> effectiveSubConfig sel = Some s) \<and>
           (\<forall>s. p_subConfig p = Some s \<and> trim s = [] \<longrightarrow>
                effectiveSubConfig sel = subConfig (config E))"
proof -
  from selectNodes_cases[OF assms(1)] assms(2) have "profileMode E tok pid = Inr sel"
    by auto
  then obtain t p where p: "find_profile (allProfiles E) pid = Some p"
      and s: "sel = \<lparr>token = t, profileIdentifier = Some pid,
                  targetMisubs =
                    (if expired E p then expiredEntries
                     else filter (\<lambda>item. e_enabled item \<and> belongsToProfile p item) (allMisubs E)),
                  subName = Some (p_name p),
                  effectiveSubConverter = override (p_subConverter p) (subConverter (config E)),
                  effectiveSubConfig = override (p_subConfig p) (subConfig (config E)),
                  isProfileExpired = expired E p\<rparr>"
    using profileMode_Inr by blast
  show ?thesis
    using override_cases[of "p_subConverter p" "subConverter (config E)"]
      override_cases[of "p_subConfig p" "subConfig (config E)"]
    by (auto simp: s p)
qed



lemma sel_teamB: "selectNodes demo_env (Some ''profiles'') (Some ''teamB'') = Inr teamB_selection"
  by code_simp

lemma sel_promoA: "selectNodes demo_env (Some ''profiles'') (Some ''promoA'') = Inr promoA_selection"
  by code_simp

lemma sel_direct: "selectNodes demo_env (Some ''abc123'') None = Inr direct_selection"
  by code_simp

lemma find_teamB: "find_profile (allProfiles demo_env) ''teamB'' = Some teamB"
  by code_simp

lemma teamB_active: "\<not> expired demo_env teamB"
  by code_simp

theorem node_selection_witness:
  "selectNodes demo_env (Some ''profiles'') (Some ''teamB'') = Inr teamB_selection \<and>
   profileIdentifier teamB_selection = Some ''teamB'' \<and>
   \<not> expired demo_env teamB \<and>
   targetMisubs teamB_selection =
     filter (\<lambda>e. e_enabled e \<and>
               ((startsWith (e_url e) ''http'' \<and> e_id e \<in> set (p_subscriptions teamB)) \<or>
                (\<not> startsWith (e_url e) ''http'' \<and> e_id e \<in> set (p_manualNodes teamB))))
       (allMisubs demo_env) \<and>
   targetMisubs teamB_selection = [entry_s1, entry_n1] \<and>
   selectNodes demo_env (Some ''abc123'') None = Inr direct_selection \<and>
   targetMisubs direct_selection = filter (\<lambda>e. e_enabled e) (allMisubs demo_env)"
  using node_selection[OF sel_teamB] node_selection[OF sel_direct] sel_teamB sel_direct
    find_teamB teamB_active
  by (simp add: teamB_selection_def direct_selection_def)

lemma find_promoA: "find_profile (allProfiles demo_env) ''promoA'' = Some promoA"
  by code_simp

lemma trim_empty: "trim [] = []"
  by code_simp

theorem converter_override_witness:
  "selectNodes demo_env (Some ''profiles'') (Some ''teamB'') = Inr teamB_selection \<and>
   p_subConverter teamB = Some ''conv.example'' \<and> trim ''conv.example'' \<noteq> [] \<and>
   effectiveSubConverter teamB_selection = Some ''conv.example'' \<and>
   p_subConfig teamB = None \<and> effectiveSubConfig teamB_selection = None \<and>
   selectNodes demo_env (Some ''profiles'') (Some ''promoA'') = Inr promoA_selection \<and>
   p_subConverter promoA = Some [] \<and> trim [] = [] \<and>
   effectiveSubConverter promoA_selection = subConverter (config demo_env)"
proof -
  have nb: "trim ''conv.example'' \<noteq> []" by code_simp
  have a: "p_subConverter teamB = Some ''conv.example''" "p_subConfig teamB = None"
    by (simp_all add: teamB_def)
  have b: "p_subConverter promoA = Some []" by (simp add: promoA_def)
  show ?thesis
    using converter_override[OF sel_teamB, of "''teamB''"]
      converter_override[OF sel_promoA, of "''promoA''"]
      sel_teamB sel_promoA find_teamB find_promoA nb trim_empty a b
    by (simp add: teamB_selection_def promoA_selection_def)
qed

subsection \<open>Expired profiles\<close>

lemma expiredEntries_urls: "map e_url expiredEntries = EXPIRED_NODES"
proof -
  have "map e_url expiredEntries = map snd (enumerate 0 EXPIRED_NODES)"
    by (simp add: expiredEntries_def case_prod_unfold comp_def)
  then show ?thesis by (simp add: map_snd_enumerate)
qed

lemma expiredEntries_length: "length expiredEntries = 4"
  by (simp add: expiredEntries_def EXPIRED_NODES_def)

lemma expiredEntries_tagged: "list_all e_isExpiredNode expiredEntries"
  by (simp add: expiredEntries_def list_all_iff case_prod_unfold)

lemma expired_iff:
  "expired E p \<longleftrightarrow> (\<exists>s d. p_expiresAt p = Some s \<and> s \<noteq> [] \<and> dateValue E s = Some d \<and> d < now E)"
  by (auto simp: expired_def split: option.splits)

lemma handle_selected:
  assumes "resolveToken r = (tok, pido)" and "selectNodes E tok pido = Inr sel"
  shows "handleMisubRequest E r = respond E r sel"
  using assms by (simp add: handleMisubRequest_def)

lemma respond_base64:
  assumes "\<not> blank (effectiveSubConverter sel)" and "negotiateFormat r = ''base64''"
  shows "fst (respond E r sel) = Reply Base64Output (base64Response E r sel)"
  using assms by (simp add: respond_def)

text \<open>
  Claim C1, as amended.  For a request that resolves to an expired profile (the token is
  the profile token, the profile is found and enabled, and its \<open>expiresAt\<close> is a date
  strictly before now), the selected node set is the fixed list of four placeholder
  entries whose urls are \<open>EXPIRED_NODES\<close>, whatever the profile's \<open>subscriptions\<close> and
  \<open>manualNodes\<close> hold.  If moreover the resolved converter backend is not blank and the
  negotiated format is \<open>base64\<close>, the answer has status 200 and its body decodes to the
  four placeholder URIs joined by newlines, with a trailing newline.
\<close>

theorem expired_profile_placeholders:
  assumes "resolveToken r = (Some t, Some pid)"
    and "Some t = profileToken (config E)"
    and "find_profile (allProfiles E) pid = Some p"
    and "p_enabled p"
    and "p_expiresAt p = Some s" and "s \<noteq> []" and "dateValue E s = Some d" and "d < now E"
  shows "\<exists>sel. selectNodes E (Some t) (Some pid) = Inr sel \<and> isProfileExpired sel \<and>
           targetMisubs sel = expiredEntries \<and>
           map e_url (targetMisubs sel) = EXPIRED_NODES \<and> length (targetMisubs sel) = 4 \<and>
           (\<not> blank (effectiveSubConverter sel) \<and> negotiateFormat r = ''base64'' \<longrightarrow>
              (\<exists>resp. fst (handleMisubRequest E r) = Reply Base64Output resp \<and> status resp = 200 \<and>
                 atob (body resp) = Some (join [newline] EXPIRED_NODES @ [newline])))"
proof -
  have ex: "expired E p"
    using assms(5-8) by (auto simp: expired_iff)
  from assms(1) have ne: "pid \<noteq> []" "t \<noteq> []"
    using resolveToken_profile by blast+
  define sel where "sel = \<lparr>token = t, profileIdentifier = Some pid,
                  targetMisubs = expiredEntries,
                  subName = Some (p_name p),
                  effectiveSubConverter = override (p_subConverter p) (subConverter (config E)),
                  effectiveSubConfig = override (p_subConfig p) (subConfig (config E)),
                  isProfileExpired = True\<rparr>"
  have s: "selectNodes E (Some t) (Some pid) = Inr sel"
    using ne assms(2)[symmetric] assms(3,4) ex
    by (simp add: selectNodes_def profileMode_def sel_def)
  have b: "fst (handleMisubRequest E r) = Reply Base64Output (base64Response E r sel) \<and>
           status (base64Response E r sel) = 200 \<and>
           atob (body (base64Response E r sel)) = Some (join [newline] EXPIRED_NODES @ [newline])"
    if "\<not> blank (effectiveSubConverter sel)" "negotiateFormat r = ''base64''"
    using that handle_selected[OF assms(1) s] respond_base64[OF that, of E]
    by (simp add: base64Response_def sel_def atob_btoa expiredContent_def)
  show ?thesis
  proof (intro exI[of _ sel] conjI impI)
    show "selectNodes E (Some t) (Some pid) = Inr sel" by (rule s)
    show "isProfileExpired sel" by (simp add: sel_def)
    show "targetMisubs sel = expiredEntries" by (simp add: sel_def)
    show "map e_url (targetMisubs sel) = EXPIRED_NODES" by (simp add: sel_def expiredEntries_urls)
    show "length (targetMisubs sel) = 4" by (simp add: sel_def expiredEntries_length)
  next
    assume "\<not> blank (effectiveSubConverter sel) \<and> negotiateFormat r = ''base64''"
    then show "\<exists>resp. fst (handleMisubRequest E r) = Reply Base64Output resp \<and> status resp = 200 \<and>
                 atob (body resp) = Some (join [newline] EXPIRED_NODES @ [newline])"
      using b by blast
  qed
qed


lemma promoA_request: "resolveToken (demo_request ''/sub/profiles/promoA'' [(''target'', ''base64'')]) = (Some ''profiles'', Some ''promoA'')"
  by code_simp

lemma promoA_format: "negotiateFormat (demo_request ''/sub/profiles/promoA'' [(''target'', ''base64'')]) = ''base64''"
  by code_simp

lemma promoA_backend: "\<not> blank (Some ''url.v1.mk'')"
  by code_simp

theorem expired_profile_placeholders_witness:
  "resolveToken (demo_request ''/sub/profiles/promoA'' [(''target'', ''base64'')]) =
     (Some ''profiles'', Some ''promoA'') \<and>
   find_profile (allProfiles demo_env) ''promoA'' = Some promoA \<and>
   p_expiresAt promoA = Some ''2020-01-01T00:00:00Z'' \<and>
   dateValue demo_env ''2020-01-01T00:00:00Z'' = Some 1577836800000 \<and>
   (1577836800000 :: int) < now demo_env \<and>
   targetMisubs promoA_selection = expiredEntries \<and>
   map e_url (targetMisubs promoA_selection) = EXPIRED_NODES \<and>
   (\<exists>resp. fst (handleMisubRequest demo_env
                 (demo_request ''/sub/profiles/promoA'' [(''target'', ''base64'')])) =
             Reply Base64Output resp \<and> status resp = 200 \<and>
           atob (body resp) = Some (join [newline] EXPIRED_NODES @ [newline]))"
proof -
  have h2: "Some ''profiles'' = profileToken (config demo_env)"
    by (simp add: demo_env_def demo_settings_def)
  have h4: "p_enabled promoA" and h5: "p_expiresAt promoA = Some ''2020-01-01T00:00:00Z''"
    by (simp_all add: promoA_def)
  have h6: "''2020-01-01T00:00:00Z'' \<noteq> []" by simp
  have h7: "dateValue demo_env ''2020-01-01T00:00:00Z'' = Some 1577836800000"
    by (simp add: demo_env_def)
  have h8: "(1577836800000 :: int) < now demo_env" by (simp add: demo_env_def)
  show ?thesis
    using expired_profile_placeholders[OF promoA_request h2 find_promoA h4 h5 h6 h7 h8]
      promoA_request find_promoA h5 h7 h8 promoA_format promoA_backend sel_promoA
    by (auto simp: promoA_selection_def)
qed

lemma no_backend_find: "find_profile (allProfiles no_backend_env) ''promoA'' = Some promoA"
  by code_simp

lemma no_backend_expired: "expired no_backend_env promoA"
  by code_simp

lemma no_backend_reply:
  "fst (handleMisubRequest no_backend_env (demo_request ''/sub/profiles/promoA'' [(''target'', ''base64'')])) =
   Reply NotConfigured (text_response 500 ''Subconverter backend is not configured.'')"
  by code_simp

lemma atob_message: "atob ''Subconverter backend is not configured.'' = None"
  by code_simp

text \<open>
  Without the condition on the backend the second half fails: line 137 rejects every
  request, Base64 ones included, when no converter backend is configured.  Here the
  profile is expired, the format is \<open>base64\<close>, and the answer is the 500 message.
\<close>

theorem expired_profile_without_backend:
  "resolveToken (demo_request ''/sub/profiles/promoA'' [(''target'', ''base64'')]) =
     (Some ''profiles'', Some ''promoA'') \<and>
   Some ''profiles'' = profileToken (config no_backend_env) \<and>
   find_profile (allProfiles no_backend_env) ''promoA'' = Some promoA \<and>
   p_enabled promoA \<and> expired no_backend_env promoA \<and>
   negotiateFormat (demo_request ''/sub/profiles/promoA'' [(''target'', ''base64'')]) = ''base64'' \<and>
   fst (handleMisubRequest no_backend_env
          (demo_request ''/sub/profiles/promoA'' [(''target'', ''base64'')])) =
     Reply NotConfigured (text_response 500 ''Subconverter backend is not configured.'') \<and>
   atob (body (text_response 500 ''Subconverter backend is not configured.'')) \<noteq>
     Some (join [newline] EXPIRED_NODES @ [newline])"
  using promoA_request no_backend_find no_backend_expired promoA_format no_backend_reply atob_message
  by (simp add: no_backend_env_def demo_settings_def promoA_def text_response_def)

subsection \<open>Format negotiation\<close>

lemma flagFormat_first:
  assumes "i < length fs" and "sp_has ps (fs ! i)" and "\<forall>j<i. \<not> sp_has ps (fs ! j)"
  shows "flagFormat ps fs = Some (normalized (fs ! i))"
  using assms
proof (induction fs arbitrary: i)
  case Nil
  then show ?case by simp
next
  case (Cons f fs)
  show ?case
  proof (cases i)
    case 0
    with Cons.prems show ?thesis by (simp add: normalized_def)
  next
    case (Suc k)
    with Cons.prems have "\<not> sp_has ps f" by auto
    moreover have "flagFormat ps fs = Some (normalized (fs ! k))"
      using Cons.prems Suc by (intro Cons.IH) auto
    ultimately show ?thesis using Suc by simp
  qed
qed

lemma flagFormat_none:
  "(\<forall>f\<in>set fs. \<not> sp_has ps f) \<Longrightarrow> flagFormat ps fs = None"
  by (induction fs) auto

lemma uaFormat_first:
  assumes "i < length tbl" and "str_includes ua (fst (tbl ! i))"
    and "\<forall>j<i. \<not> str_includes ua (fst (tbl ! j))"
  shows "uaFormat ua tbl = Some (snd (tbl ! i))"
  using assms
proof (induction tbl arbitrary: i)
  case Nil
  then show ?case by simp
next
  case (Cons kf tbl)
  obtain k f where kf: "kf = (k, f)" by (cases kf)
  show ?case
  proof (cases i)
    case 0
    with Cons.prems kf show ?thesis by simp
  next
    case (Suc n)
    with Cons.prems kf have "\<not> str_includes ua k" by auto
    moreover have "uaFormat ua tbl = Some (snd (tbl ! n))"
      using Cons.prems Suc by (intro Cons.IH) auto
    ultimately show ?thesis using Suc kf by simp
  qed
qed

lemma uaFormat_none:
  "(\<forall>kf\<in>set tbl. \<not> str_includes ua (fst kf)) \<Longrightarrow> uaFormat ua tbl = None"
  by (induction tbl) auto

lemma supported_nonempty: "f \<in> set supportedFormats \<Longrightarrow> normalized f \<noteq> []"
  by (auto simp: supportedFormats_def normalized_def)

lemma uaMapping_nonempty: "kf \<in> set uaMapping \<Longrightarrow> snd kf \<noteq> []"
  by (auto simp: uaMapping_def)

text \<open>
  Claim C2, as amended.  The format is settled by the first stage that applies:
  a \<open>target\<close> parameter whose value is not empty is used verbatim; when \<open>target\<close> is absent
  or empty, the first name of \<open>supportedFormats\<close> (in the order of that list) present as a
  query flag decides, \<open>v2ray\<close> and \<open>trojan\<close> standing for \<open>base64\<close>; when no flag is present
  either, the first row of the keyword table whose keyword occurs in the lower-cased
  User-Agent decides; and when no keyword occurs, the format is \<open>base64\<close>.
\<close>

theorem format_precedence:
  "(\<forall>t. sp_get (searchParams (req_url r)) ''target'' = Some t \<and> t \<noteq> [] \<longrightarrow>
        negotiateFormat r = t) \<and>
   (falsy (sp_get (searchParams (req_url r)) ''target'') \<longrightarrow>
      (\<forall>i<length supportedFormats.
          sp_has (searchParams (req_url r)) (supportedFormats ! i) \<and>
          (\<forall>j<i. \<not> sp_has (searchParams (req_url r)) (supportedFormats ! j)) \<longrightarrow>
          negotiateFormat r = normalized (supportedFormats ! i)) \<and>
      ((\<forall>f\<in>set supportedFormats. \<not> sp_has (searchParams (req_url r)) f) \<longrightarrow>
         (\<forall>i<length uaMapping.
             str_includes (toLowerCase (userAgentHeader r)) (fst (uaMapping ! i)) \<and>
             (\<forall>j<i. \<not> str_includes (toLowerCase (userAgentHeader r)) (fst (uaMapping ! j))) \<longrightarrow>
             negotiateFormat r = snd (uaMapping ! i)) \<and>
         ((\<forall>kf\<in>set uaMapping. \<not> str_includes (toLowerCase (userAgentHeader r)) (fst kf)) \<longrightarrow>
            negotiateFormat r = ''base64'')))"
proof (intro conjI allI impI)
  fix t
  assume "sp_get (searchParams (req_url r)) ''target'' = Some t \<and> t \<noteq> []"
  then show "negotiateFormat r = t"
    by (simp add: negotiateFormat_def Let_def falsy_def toStr_def)
next
  fix i
  assume a: "falsy (sp_get (searchParams (req_url r)) ''target'')"
    and i: "i < length supportedFormats"
    and h: "sp_has (searchParams (req_url r)) (supportedFormats ! i) \<and>
          (\<forall>j<i. \<not> sp_has (searchParams (req_url r)) (supportedFormats ! j))"
  have f: "flagFormat (searchParams (req_url r)) supportedFormats = Some (normalized (supportedFormats ! i))"
    using i h by (intro flagFormat_first) auto
  have "normalized (supportedFormats ! i) \<noteq> []"
    using i by (intro supported_nonempty) simp
  with a f show "negotiateFormat r = normalized (supportedFormats ! i)"
    by (simp add: negotiateFormat_def Let_def falsy_def toStr_def)
next
  fix i
  assume a: "falsy (sp_get (searchParams (req_url r)) ''target'')"
    and n: "\<forall>f\<in>set supportedFormats. \<not> sp_has (searchParams (req_url r)) f"
    and i: "i < length uaMapping"
    and h: "str_includes (toLowerCase (userAgentHeader r)) (fst (uaMapping ! i)) \<and>
             (\<forall>j<i. \<not> str_includes (toLowerCase (userAgentHeader r)) (fst (uaMapping ! j)))"
  have f: "flagFormat (searchParams (req_url r)) supportedFormats = None"
    using n by (rule flagFormat_none)
  have u: "uaFormat (toLowerCase (userAgentHeader r)) uaMapping = Some (snd (uaMapping ! i))"
    using i h by (intro uaFormat_first) auto
  have "snd (uaMapping ! i) \<noteq> []"
    using i by (intro uaMapping_nonempty) simp
  with a f u show "negotiateFormat r = snd (uaMapping ! i)"
    by (simp add: negotiateFormat_def Let_def falsy_def toStr_def)
next
  assume a: "falsy (sp_get (searchParams (req_url r)) ''target'')"
    and n: "\<forall>f\<in>set supportedFormats. \<not> sp_has (searchParams (req_url r)) f"
    and m: "\<forall>kf\<in>set uaMapping. \<not> str_includes (toLowerCase (userAgentHeader r)) (fst kf)"
  have f: "flagFormat (searchParams (req_url r)) supportedFormats = None"
    using n by (rule flagFormat_none)
  have u: "uaFormat (toLowerCase (userAgentHeader r)) uaMapping = None"
    using m by (rule uaFormat_none)
  from a f u show "negotiateFormat r = ''base64''"
    by (simp add: negotiateFormat_def Let_def falsy_def)
qed


lemma first_by_take:
  assumes "list_all (\<lambda>x. \<not> P x) (take i xs)" and "i \<le> length xs"
  shows "\<forall>j<i. \<not> P (xs ! j)"
proof (intro allI impI)
  fix j assume j: "j < i"
  with assms(2) have "j < length (take i xs)" by simp
  with assms(1) have "\<not> P (take i xs ! j)" by (simp add: list_all_length)
  with j show "\<not> P (xs ! j)" by simp
qed

lemma none_by_list_all: "list_all (\<lambda>x. \<not> P x) xs \<Longrightarrow> \<forall>x\<in>set xs. \<not> P x"
  by (simp add: list_all_iff)

theorem format_precedence_witness:
  "sp_get (searchParams (req_url (demo_request ''/sub/abc123'' [(''clash'', []), (''target'', ''singbox'')])))
     ''target'' = Some ''singbox'' \<and>
   negotiateFormat (demo_request ''/sub/abc123'' [(''clash'', []), (''target'', ''singbox'')]) = ''singbox'' \<and>
   sp_has (searchParams (req_url (demo_request ''/sub/abc123'' [(''trojan'', []), (''loon'', [])]))) ''loon'' \<and>
   negotiateFormat (demo_request ''/sub/abc123'' [(''trojan'', []), (''loon'', [])]) = ''loon'' \<and>
   negotiateFormat (demo_request ''/sub/abc123'' [(''v2ray'', [])]) = ''base64'' \<and>
   str_includes (toLowerCase (userAgentHeader (demo_request ''/sub/abc123'' []))) ''shadowrocket'' \<and>
   negotiateFormat (demo_request ''/sub/abc123'' []) = ''base64'' \<and>
   userAgentHeader (anonymous_request ''/sub/abc123'' []) = ''Unknown'' \<and>
   negotiateFormat (anonymous_request ''/sub/abc123'' []) = ''base64''"
proof -
  let ?r1 = "demo_request ''/sub/abc123'' [(''clash'', []), (''target'', ''singbox'')]"
  let ?r2 = "demo_request ''/sub/abc123'' [(''trojan'', []), (''loon'', [])]"
  let ?r3 = "demo_request ''/sub/abc123'' [(''v2ray'', [])]"
  let ?r4 = "demo_request ''/sub/abc123'' []"
  let ?r5 = "anonymous_request ''/sub/abc123'' []"
  have t1: "sp_get (searchParams (req_url ?r1)) ''target'' = Some ''singbox''" by code_simp
  have t2: "falsy (sp_get (searchParams (req_url ?r2)) ''target'')" by code_simp
  have t3: "falsy (sp_get (searchParams (req_url ?r3)) ''target'')" by code_simp
  have t4: "falsy (sp_get (searchParams (req_url ?r4)) ''target'')" by code_simp
  have t5: "falsy (sp_get (searchParams (req_url ?r5)) ''target'')" by code_simp
  have f2: "sp_has (searchParams (req_url ?r2)) (supportedFormats ! 3)" by code_simp
  have "list_all (\<lambda>f. \<not> sp_has (searchParams (req_url ?r2)) f) (take 3 supportedFormats)"
    by code_simp
  then have g2: "\<forall>j<3. \<not> sp_has (searchParams (req_url ?r2)) (supportedFormats ! j)"
    by (rule first_by_take) (simp add: supportedFormats_def)
  have f3: "sp_has (searchParams (req_url ?r3)) (supportedFormats ! 5)" by code_simp
  have "list_all (\<lambda>f. \<not> sp_has (searchParams (req_url ?r3)) f) (take 5 supportedFormats)"
    by code_simp
  then have g3: "\<forall>j<5. \<not> sp_has (searchParams (req_url ?r3)) (supportedFormats ! j)"
    by (rule first_by_take) (simp add: supportedFormats_def)
  have "list_all (\<lambda>f. \<not> sp_has (searchParams (req_url ?r4)) f) supportedFormats" by code_simp
  then have n4: "\<forall>f\<in>set supportedFormats. \<not> sp_has (searchParams (req_url ?r4)) f"
    by (rule none_by_list_all)
  have u4: "str_includes (toLowerCase (userAgentHeader ?r4)) (fst (uaMapping ! 8))" by code_simp
  have "list_all (\<lambda>kf. \<not> str_includes (toLowerCase (userAgentHeader ?r4)) (fst kf)) (take 8 uaMapping)"
    by code_simp
  then have "\<forall>j<8. \<not> (\<lambda>kf. str_includes (toLowerCase (userAgentHeader ?r4)) (fst kf)) (uaMapping ! j)"
    by (rule first_by_take) (simp add: uaMapping_def)
  then have g4: "\<forall>j<8. \<not> str_includes (toLowerCase (userAgentHeader ?r4)) (fst (uaMapping ! j))"
    by simp
  have "list_all (\<lambda>f. \<not> sp_has (searchParams (req_url ?r5)) f) supportedFormats" by code_simp
  then have n5: "\<forall>f\<in>set supportedFormats. \<not> sp_has (searchParams (req_url ?r5)) f"
    by (rule none_by_list_all)
  have "list_all (\<lambda>kf. \<not> str_includes (toLowerCase (userAgentHeader ?r5)) (fst kf)) uaMapping"
    by code_simp
  then have m5: "\<forall>kf\<in>set uaMapping. \<not> str_includes (toLowerCase (userAgentHeader ?r5)) (fst kf)"
    by (rule none_by_list_all)
  have l3: "3 < length supportedFormats" and l5: "5 < length supportedFormats"
    by (simp_all add: supportedFormats_def)
  have l8: "8 < length uaMapping" by (simp add: uaMapping_def)
  have c1: "negotiateFormat ?r1 = ''singbox''"
    using format_precedence[of ?r1] t1 by simp
  have "negotiateFormat ?r2 = normalized (supportedFormats ! 3)"
    using format_precedence[of ?r2] t2 f2 g2 l3 by blast
  moreover have "normalized (supportedFormats ! 3) = ''loon''" by code_simp
  ultimately have c2: "negotiateFormat ?r2 = ''loon''" by simp
  have "negotiateFormat ?r3 = normalized (supportedFormats ! 5)"
    using format_precedence[of ?r3] t3 f3 g3 l5 by blast
  moreover have "normalized (supportedFormats ! 5) = ''base64''" by code_simp
  ultimately have c3: "negotiateFormat ?r3 = ''base64''" by simp
  have "negotiateFormat ?r4 = snd (uaMapping ! 8)"
    using format_precedence[of ?r4] t4 n4 u4 g4 l8 by blast
  moreover have "snd (uaMapping ! 8) = ''base64''" by code_simp
  ultimately have c4: "negotiateFormat ?r4 = ''base64''" by simp
  have c5: "negotiateFormat ?r5 = ''base64''"
    using format_precedence[of ?r5] t5 n5 m5 by blast
  have s2: "sp_has (searchParams (req_url ?r2)) ''loon''" by code_simp
  have s4: "str_includes (toLowerCase (userAgentHeader ?r4)) ''shadowrocket''" by code_simp
  have s5: "userAgentHeader ?r5 = ''Unknown''" by code_simp
  from t1 c1 s2 c2 c3 s4 c4 s5 c5 show ?thesis by simp
qed

text \<open>
  A \<open>target\<close> parameter that is present with an empty value does not override the later
  stages: \<open>?target=&clash\<close> gives \<open>clash\<close>, not the empty text.
\<close>

theorem empty_target_yields_to_flag:
  "sp_get (searchParams (req_url (demo_request ''/sub/abc123'' [(''target'', []), (''clash'', [])])))
     ''target'' = Some [] \<and>
   negotiateFormat (demo_request ''/sub/abc123'' [(''target'', []), (''clash'', [])]) = ''clash'' \<and>
   negotiateFormat (demo_request ''/sub/abc123'' [(''target'', []), (''clash'', [])]) \<noteq> []"
  by code_simp

subsection \<open>Remaining traffic\<close>

lemma foldl_remaining:
  "foldl (\<lambda>acc sub. if has_quota sub then acc + max 0 (remaining sub) else acc) a subs =
   a + sum_list (map (\<lambda>sub. max 0 (remaining sub)) (filter has_quota subs))"
  by (induction subs arbitrary: a) auto

lemma total_as_sum:
  "totalRemainingBytes subs = sum_list (map (\<lambda>sub. max 0 (remaining sub)) (filter has_quota subs))"
  by (simp add: totalRemainingBytes_def foldl_remaining)

lemma total_nonneg: "0 \<le> totalRemainingBytes subs"
  unfolding total_as_sum by (rule sum_list_nonneg) auto

lemma total_insert:
  "totalRemainingBytes (xs @ sub # ys) =
   totalRemainingBytes (xs @ ys) + (if has_quota sub then max 0 (remaining sub) else 0)"
  by (simp add: total_as_sum)

lemma hex_digit_not_newline:
  assumes "d < 16"
  shows "hex_digit d \<noteq> newline"
proof
  assume "hex_digit d = newline"
  then have "(of_char (hex_digit d) :: nat) = of_char newline" by simp
  with assms show False
    by (simp add: hex_digit_def newline_def split: if_splits)
qed

lemma percent_byte_no_newline: "newline \<notin> set (percent_byte c)"
proof -
  have "(of_char c :: nat) div 16 < 16"
    by (simp add: less_mult_imp_div_less)
  then show ?thesis
    using hex_digit_not_newline[of "of_char c div 16"] hex_digit_not_newline[of "of_char c mod 16"]
    by (auto simp: percent_byte_def Let_def newline_def)
qed

lemma unreserved_not_newline: "unreserved c \<Longrightarrow> c \<noteq> newline"
  by (auto simp: unreserved_def newline_def Let_def)

lemma encodeURIComponent_no_newline: "newline \<notin> set (encodeURIComponent s)"
  using percent_byte_no_newline unreserved_not_newline
  by (auto simp: encodeURIComponent_def split: if_splits)

lemma trafficNode_line:
  "newline \<notin> set (trafficNode E n) \<and> trafficNode E n \<noteq> [] \<and>
   startsWith (trafficNode E n) ''trojan://''"
  using encodeURIComponent_no_newline[of "traffic_label @ formatBytes E n"]
  by (simp add: trafficNode_def startsWith_def newline_def)

text \<open>
  Claim C7.  The traffic placeholder is built only for a profile that is not expired.
  The aggregate is the sum, over the selected entries that are enabled and whose
  \<open>userInfo.total\<close> is positive, of \<open>max 0 (total - (upload + download))\<close>; it is never
  negative, adding an entry anywhere in the list never decreases it, and adding an entry
  with positive remaining quota increases it.  An aggregate of 0 gives no placeholder
  (the empty text); a positive aggregate gives exactly one node, a single \<open>trojan://\<close>
  line without a newline.
\<close>

theorem traffic_summary:
  "(isProfileExpired sel \<longrightarrow> prependedContentForSubconverter E sel = []) \<and>
   (has_quota sub \<longleftrightarrow>
      e_enabled sub \<and> (\<exists>u t. e_userInfo sub = Some u \<and> total u = Some t \<and> 0 < t)) \<and>
   (\<forall>u t. e_userInfo sub = Some u \<and> total u = Some t \<longrightarrow>
      remaining sub = t - (num_or_0 (upload u) + num_or_0 (download u))) \<and>
   totalRemainingBytes subs =
     sum_list (map (\<lambda>sub. max 0 (remaining sub)) (filter has_quota subs)) \<and>
   0 \<le> totalRemainingBytes subs \<and>
   totalRemainingBytes (xs @ ys) \<le> totalRemainingBytes (xs @ sub # ys) \<and>
   (has_quota sub \<and> 0 < remaining sub \<longrightarrow>
      totalRemainingBytes (xs @ ys) < totalRemainingBytes (xs @ sub # ys)) \<and>
   (\<not> isProfileExpired sel \<and> totalRemainingBytes (targetMisubs sel) = 0 \<longrightarrow>
      prependedContentForSubconverter E sel = []) \<and>
   (\<not> isProfileExpired sel \<and> 0 < totalRemainingBytes (targetMisubs sel) \<longrightarrow>
      prependedContentForSubconverter E sel =
        trafficNode E (totalRemainingBytes (targetMisubs sel)) \<and>
      prependedContentForSubconverter E sel \<noteq> [] \<and>
      startsWith (prependedContentForSubconverter E sel) ''trojan://'' \<and>
      newline \<notin> set (prependedContentForSubconverter E sel))"
proof (intro conjI)
  show "isProfileExpired sel \<longrightarrow> prependedContentForSubconverter E sel = []"
    by (simp add: prependedContentForSubconverter_def)
  show "has_quota sub \<longleftrightarrow>
      e_enabled sub \<and> (\<exists>u t. e_userInfo sub = Some u \<and> total u = Some t \<and> 0 < t)"
    by (auto simp: has_quota_def split: option.splits)
  show "\<forall>u t. e_userInfo sub = Some u \<and> total u = Some t \<longrightarrow>
      remaining sub = t - (num_or_0 (upload u) + num_or_0 (download u))"
    by (simp add: remaining_def num_or_0_def)
  show "totalRemainingBytes subs =
     sum_list (map (\<lambda>sub. max 0 (remaining sub)) (filter has_quota subs))"
    by (rule total_as_sum)
  show "0 \<le> totalRemainingBytes subs" by (rule total_nonneg)
  show "totalRemainingBytes (xs @ ys) \<le> totalRemainingBytes (xs @ sub # ys)"
    by (simp add: total_insert)
  show "has_quota sub \<and> 0 < remaining sub \<longrightarrow>
      totalRemainingBytes (xs @ ys) < totalRemainingBytes (xs @ sub # ys)"
    by (simp add: total_insert)
  show "\<not> isProfileExpired sel \<and> totalRemainingBytes (targetMisubs sel) = 0 \<longrightarrow>
      prependedContentForSubconverter E sel = []"
    by (simp add: prependedContentForSubconverter_def)
  show "\<not> isProfileExpired sel \<and> 0 < totalRemainingBytes (targetMisubs sel) \<longrightarrow>
      prependedContentForSubconverter E sel =
        trafficNode E (totalRemainingBytes (targetMisubs sel)) \<and>
      prependedContentForSubconverter E sel \<noteq> [] \<and>
      startsWith (prependedContentForSubconverter E sel) ''trojan://'' \<and>
      newline \<notin> set (prependedContentForSubconverter E sel)"
    using trafficNode_line[of E "totalRemainingBytes (targetMisubs sel)"]
    by (simp add: prependedContentForSubconverter_def Let_def)
qed

lemma teamB_total: "totalRemainingBytes (targetMisubs teamB_selection) = 70"
  by code_simp

lemma teamB_node:
  "trafficNode demo_env 70 =
   ''trojan://00000000-0000-0000-0000-000000000000@127.0.0.1:443#%E6%B5%81%E9%87%8F%E5%89%A9%E4%BD%99%20%E2%89%AB%2070%20B''"
  by code_simp

theorem traffic_summary_witness:
  "isProfileExpired promoA_selection \<and> prependedContentForSubconverter demo_env promoA_selection = [] \<and>
   has_quota entry_s1 \<and> remaining entry_s1 = 70 \<and>
   totalRemainingBytes [entry_n1] = 0 \<and>
   totalRemainingBytes ([] @ [entry_n1]) < totalRemainingBytes ([] @ entry_s1 # [entry_n1]) \<and>
   \<not> isProfileExpired teamB_selection \<and> 0 < totalRemainingBytes (targetMisubs teamB_selection) \<and>
   prependedContentForSubconverter demo_env teamB_selection =
     ''trojan://00000000-0000-0000-0000-000000000000@127.0.0.1:443#%E6%B5%81%E9%87%8F%E5%89%A9%E4%BD%99%20%E2%89%AB%2070%20B'' \<and>
   newline \<notin> set (prependedContentForSubconverter demo_env teamB_selection)"
proof -
  have q: "has_quota entry_s1" and rm: "remaining entry_s1 = 70" by code_simp+
  have z: "totalRemainingBytes [entry_n1] = 0" by code_simp
  have e1: "isProfileExpired promoA_selection" by (simp add: promoA_selection_def)
  have e2: "\<not> isProfileExpired teamB_selection" by (simp add: teamB_selection_def)
  note a = traffic_summary[of promoA_selection demo_env entry_s1 "[entry_n1]" "[]" "[entry_n1]"]
  note b = traffic_summary[of teamB_selection demo_env entry_s1 "[entry_n1]" "[]" "[entry_n1]"]
  from a e1 have c1: "prependedContentForSubconverter demo_env promoA_selection = []" by blast
  have rp: "0 < remaining entry_s1" by (simp add: rm)
  from a q rp have c2: "totalRemainingBytes ([] @ [entry_n1]) < totalRemainingBytes ([] @ entry_s1 # [entry_n1])"
    by blast
  have pos: "0 < totalRemainingBytes (targetMisubs teamB_selection)" by (simp add: teamB_total)
  from b e2 pos have c3: "prependedContentForSubconverter demo_env teamB_selection =
        trafficNode demo_env (totalRemainingBytes (targetMisubs teamB_selection)) \<and>
      newline \<notin> set (prependedContentForSubconverter demo_env teamB_selection)"
    by blast
  from c1 c2 c3 q rm z e1 e2 pos teamB_total teamB_node show ?thesis by (simp add: newline_def)
qed

subsection \<open>Access notification\<close>

lemma selectNodes_Inl:
  assumes "selectNodes E tok pido = Inl rp"
  shows "reply_exit rp \<in> {Some InvalidProfileToken, Some ProfileNotFound, Some InvalidToken}"
  using assms
  by (auto simp: selectNodes_def directMode_def profileMode_def reply_exit_def
           split: option.splits if_splits)

lemma relay_exit: "reply_exit (relay E sel res) \<in> {Some ConverterRelay, Some ConverterError}"
  by (auto simp: relay_def bad_gateway_def reply_exit_def split: sum.splits)

lemma convert_exit:
  "reply_exit (convert E r sel f) \<in> {Some CallbackOutput, Some ConverterRelay, Some ConverterError, None}"
  using relay_exit
  by (auto simp: convert_def reply_exit_def split: option.splits)

lemma respond_cases:
  "(blank (effectiveSubConverter sel) \<and>
      respond E r sel =
        (Reply NotConfigured (text_response 500 ''Subconverter backend is not configured.''), None)) \<or>
   (\<not> blank (effectiveSubConverter sel) \<and>
      snd (respond E r sel) = notify E r sel (negotiateFormat r) \<and>
      reply_exit (fst (respond E r sel)) \<in>
        {Some Base64Output, Some CallbackOutput, Some ConverterRelay, Some ConverterError, None})"
  using convert_exit[of E r sel "negotiateFormat r"]
  by (auto simp: respond_def Let_def reply_exit_def)

lemma notify_Some: "notify E r sel f \<noteq> None \<longleftrightarrow> \<not> sp_has (searchParams (req_url r)) ''callback_token''"
  by (simp add: notify_def)

text \<open>
  Claim C8, as amended.  An access notification is scheduled exactly when the query
  string has no \<open>callback_token\<close> parameter and the request is not rejected before format
  negotiation (403, 404 or the 500 for a missing backend).  So a request that carries the
  parameter, with whatever value, never schedules one, and a request without it
  schedules one unless it is rejected.
\<close>

theorem notification_scheduling:
  "(snd (handleMisubRequest E r) \<noteq> None) =
   (\<not> sp_has (searchParams (req_url r)) ''callback_token'' \<and>
    reply_exit (fst (handleMisubRequest E r)) \<notin> rejected)"
proof -
  obtain tok pido where rt: "resolveToken r = (tok, pido)" by (cases "resolveToken r")
  show ?thesis
  proof (cases "selectNodes E tok pido")
    case (Inl rp)
    then have "handleMisubRequest E r = (rp, None)"
      using rt by (simp add: handleMisubRequest_def)
    moreover have "reply_exit rp \<in> rejected"
      using selectNodes_Inl[OF Inl] by (auto simp: rejected_def)
    ultimately show ?thesis by simp
  next
    case (Inr sel)
    have h: "handleMisubRequest E r = respond E r sel"
      by (rule handle_selected[OF rt Inr])
    from respond_cases[of sel E r] show ?thesis
    proof (elim disjE conjE)
      assume "respond E r sel =
        (Reply NotConfigured (text_response 500 ''Subconverter backend is not configured.''), None)"
      then show ?thesis by (simp add: h rejected_def reply_exit_def)
    next
      assume n: "snd (respond E r sel) = notify E r sel (negotiateFormat r)"
        and x: "reply_exit (fst (respond E r sel)) \<in>
           {Some Base64Output, Some CallbackOutput, Some ConverterRelay, Some ConverterError, None}"
      from x have "reply_exit (fst (respond E r sel)) \<notin> rejected"
        by (auto simp: rejected_def)
      with n notify_Some[of E r sel "negotiateFormat r"] show ?thesis by (simp add: h)
    qed
  qed
qed


theorem notification_scheduling_witness:
  "\<not> sp_has (searchParams (req_url (demo_request ''/sub/profiles/teamB'' [(''target'', ''base64'')])))
       ''callback_token'' \<and>
   reply_exit (fst (handleMisubRequest demo_env
      (demo_request ''/sub/profiles/teamB'' [(''target'', ''base64'')]))) = Some Base64Output \<and>
   snd (handleMisubRequest demo_env
      (demo_request ''/sub/profiles/teamB'' [(''target'', ''base64'')])) \<noteq> None \<and>
   sp_has (searchParams (req_url (demo_request ''/profiles/teamB''
       [(''target'', ''base64''), (''callback_token'', ''stale'')]))) ''callback_token'' \<and>
   snd (handleMisubRequest demo_env (demo_request ''/profiles/teamB''
       [(''target'', ''base64''), (''callback_token'', ''stale'')])) = None"
proof -
  let ?r1 = "demo_request ''/sub/profiles/teamB'' [(''target'', ''base64'')]"
  let ?r2 = "demo_request ''/profiles/teamB'' [(''target'', ''base64''), (''callback_token'', ''stale'')]"
  have a1: "\<not> sp_has (searchParams (req_url ?r1)) ''callback_token''" by code_simp
  have a2: "sp_has (searchParams (req_url ?r2)) ''callback_token''" by code_simp
  have x1: "reply_exit (fst (handleMisubRequest demo_env ?r1)) = Some Base64Output" by code_simp
  have "reply_exit (fst (handleMisubRequest demo_env ?r1)) \<notin> rejected"
    by (simp add: x1 rejected_def)
  with a1 have c1: "snd (handleMisubRequest demo_env ?r1) \<noteq> None"
    using notification_scheduling[of demo_env ?r1] by simp
  from a2 have c2: "snd (handleMisubRequest demo_env ?r2) = None"
    using notification_scheduling[of demo_env ?r2] by simp
  from a1 a2 x1 c1 c2 show ?thesis by simp
qed

text \<open>
  A request without \<open>callback_token\<close> that fails authorization is answered before line
  187 is reached, and nothing is scheduled.
\<close>

theorem rejected_request_not_notified:
  "\<not> sp_has (searchParams (req_url (demo_request ''/sub/guess'' [(''clash'', [])]))) ''callback_token'' \<and>
   handleMisubRequest demo_env (demo_request ''/sub/guess'' [(''clash'', [])]) =
     (Reply InvalidToken (text_response 403 ''Invalid Token''), None)"
  by code_simp

subsection \<open>The callback token and the Base64 branch\<close>

lemma sp_get_filter:
  "k \<noteq> c \<Longrightarrow> sp_get (filter (\<lambda>q. fst q \<noteq> c) ps) k = sp_get ps k"
  by (induction ps) (auto simp: sp_get_def)

lemma sp_has_filter:
  "k \<noteq> c \<Longrightarrow> sp_has (filter (\<lambda>q. fst q \<noteq> c) ps) k = sp_has ps k"
  by (auto simp: sp_has_def)

lemma flagFormat_filter:
  "c \<notin> set fs \<Longrightarrow> flagFormat (filter (\<lambda>q. fst q \<noteq> c) ps) fs = flagFormat ps fs"
  by (induction fs) (auto simp: sp_has_filter)

lemma without_fields:
  "searchParams (req_url (without_callback_token r)) =
     filter (\<lambda>q. fst q \<noteq> ''callback_token'') (searchParams (req_url r))"
  "pathname (req_url (without_callback_token r)) = pathname (req_url r)"
  "req_headers (without_callback_token r) = req_headers r"
  by (simp_all add: without_callback_token_def)

lemma userAgent_without: "userAgentHeader (without_callback_token r) = userAgentHeader r"
  by (simp add: userAgentHeader_def without_fields)

lemma negotiate_without: "negotiateFormat (without_callback_token r) = negotiateFormat r"
proof -
  have "''callback_token'' \<notin> set supportedFormats"
    by (simp add: supportedFormats_def)
  then show ?thesis
    by (simp add: negotiateFormat_def Let_def userAgent_without without_fields sp_get_filter
          flagFormat_filter)
qed

lemma resolve_without: "resolveToken (without_callback_token r) = resolveToken r"
proof -
  have p: "pathSegments (without_callback_token r) = pathSegments r"
    by (simp add: pathSegments_def without_fields)
  have t: "sp_get (searchParams (req_url (without_callback_token r))) ''token'' =
           sp_get (searchParams (req_url r)) ''token''"
    by (simp add: without_fields sp_get_filter)
  show ?thesis
    by (simp add: resolveToken_def p t split: list.splits)
qed

lemma base64_same:
  assumes "userAgentHeader r1 = userAgentHeader r2"
    and "generateCombinedNodeList E r1 = generateCombinedNodeList E r2"
  shows "base64Response E r1 sel = base64Response E r2 sel"
  using assms by (simp add: base64Response_def combinedNodeList_def)

lemma base64_reply:
  assumes "negotiateFormat r = ''base64''"
  shows "reply_exit (fst (handleMisubRequest E r)) \<in> insert (Some Base64Output) rejected"
proof -
  obtain tok pido where rt: "resolveToken r = (tok, pido)" by (cases "resolveToken r")
  show ?thesis
  proof (cases "selectNodes E tok pido")
    case (Inl rp)
    then have "handleMisubRequest E r = (rp, None)"
      using rt by (simp add: handleMisubRequest_def)
    moreover have "reply_exit rp \<in> rejected"
      using selectNodes_Inl[OF Inl] by (auto simp: rejected_def)
    ultimately show ?thesis by simp
  next
    case (Inr sel)
    have "handleMisubRequest E r = respond E r sel"
      by (rule handle_selected[OF rt Inr])
    with assms show ?thesis
      by (simp add: respond_def reply_exit_def rejected_def)
  qed
qed

lemma target_base64:
  assumes "sp_get (searchParams (req_url r)) ''target'' = Some ''base64''"
  shows "negotiateFormat r = ''base64''"
  using assms by (simp add: negotiateFormat_def falsy_def toStr_def)

text \<open>
  Claim C10, as amended.  Take two requests that differ at most in their
  \<open>callback_token\<close> query pairs and whose negotiated format is \<open>base64\<close>.  The handler
  itself reads the parameter only at lines 187 and 288, but it hands the request context
  to the node-list collaborator; if the collaborator returns the same function of its
  remaining arguments for both requests, the handler gives the same reply for both: the
  same return statement, status, headers and body.  The callback return of line 289 is
  taken only when the negotiated format is not \<open>base64\<close>; a request with
  \<open>target=base64\<close>, as every generated callback URL has, is negotiated to \<open>base64\<close> and
  is answered by the Base64 return of line 268 unless it is rejected before it (403, 404
  or the 500 for a missing backend), never by the callback return.
\<close>

theorem callback_token_noninterference:
  "(without_callback_token r1 = without_callback_token r2 \<and>
    generateCombinedNodeList E r1 = generateCombinedNodeList E r2 \<and>
    negotiateFormat r1 = ''base64'' \<longrightarrow>
      fst (handleMisubRequest E r1) = fst (handleMisubRequest E r2)) \<and>
   (reply_exit (fst (handleMisubRequest E r)) = Some CallbackOutput \<longrightarrow>
      negotiateFormat r \<noteq> ''base64'') \<and>
   (sp_get (searchParams (req_url r)) ''target'' = Some ''base64'' \<longrightarrow>
      negotiateFormat r = ''base64'' \<and>
      reply_exit (fst (handleMisubRequest E r)) \<in> insert (Some Base64Output) rejected)"
proof (intro conjI impI)
  assume a: "without_callback_token r1 = without_callback_token r2 \<and>
    generateCombinedNodeList E r1 = generateCombinedNodeList E r2 \<and>
    negotiateFormat r1 = ''base64''"
  then have w: "without_callback_token r1 = without_callback_token r2"
    and g: "generateCombinedNodeList E r1 = generateCombinedNodeList E r2"
    and f1: "negotiateFormat r1 = ''base64''" by simp_all
  have f2: "negotiateFormat r2 = ''base64''"
    using negotiate_without[of r1] negotiate_without[of r2] w f1 by simp
  have ua: "userAgentHeader r1 = userAgentHeader r2"
    using userAgent_without[of r1] userAgent_without[of r2] w by simp
  have rs: "resolveToken r1 = resolveToken r2"
    using resolve_without[of r1] resolve_without[of r2] w by simp
  obtain tok pido where rt: "resolveToken r1 = (tok, pido)" by (cases "resolveToken r1")
  show "fst (handleMisubRequest E r1) = fst (handleMisubRequest E r2)"
  proof (cases "selectNodes E tok pido")
    case (Inl rp)
    then show ?thesis using rt rs by (simp add: handleMisubRequest_def)
  next
    case (Inr sel)
    have "handleMisubRequest E r1 = respond E r1 sel"
      by (rule handle_selected[OF rt Inr])
    moreover have "handleMisubRequest E r2 = respond E r2 sel"
      using rt rs by (intro handle_selected[OF _ Inr]) simp
    ultimately show ?thesis
      using f1 f2 base64_same[OF ua g] by (simp add: respond_def)
  qed
next
  assume x: "reply_exit (fst (handleMisubRequest E r)) = Some CallbackOutput"
  show "negotiateFormat r \<noteq> ''base64''"
  proof
    assume "negotiateFormat r = ''base64''"
    from base64_reply[OF this, of E] x show False by (simp add: rejected_def)
  qed
next
  assume t: "sp_get (searchParams (req_url r)) ''target'' = Some ''base64''"
  show "negotiateFormat r = ''base64''" by (rule target_base64[OF t])
  then show "reply_exit (fst (handleMisubRequest E r)) \<in> insert (Some Base64Output) rejected"
    by (rule base64_reply)
qed


theorem callback_token_noninterference_witness:
  "without_callback_token (demo_request ''/profiles/teamB''
       [(''target'', ''base64''), (''callback_token'', ''cbtok'')]) =
     without_callback_token (demo_request ''/profiles/teamB'' [(''target'', ''base64'')]) \<and>
   negotiateFormat (demo_request ''/profiles/teamB''
       [(''target'', ''base64''), (''callback_token'', ''cbtok'')]) = ''base64'' \<and>
   fst (handleMisubRequest demo_env (demo_request ''/profiles/teamB''
       [(''target'', ''base64''), (''callback_token'', ''cbtok'')])) =
     fst (handleMisubRequest demo_env (demo_request ''/profiles/teamB'' [(''target'', ''base64'')])) \<and>
   reply_exit (fst (handleMisubRequest demo_env (demo_request ''/profiles/teamB''
       [(''target'', ''base64''), (''callback_token'', ''cbtok'')]))) = Some Base64Output \<and>
   sp_get (searchParams (req_url (demo_request ''/profiles/teamB''
       [(''target'', ''base64''), (''callback_token'', ''cbtok'')]))) ''callback_token'' =
     Some (getCallbackToken demo_env)"
proof -
  let ?r1 = "demo_request ''/profiles/teamB'' [(''target'', ''base64''), (''callback_token'', ''cbtok'')]"
  let ?r2 = "demo_request ''/profiles/teamB'' [(''target'', ''base64'')]"
  have w: "without_callback_token ?r1 = without_callback_token ?r2" by code_simp
  have g: "generateCombinedNodeList demo_env ?r1 = generateCombinedNodeList demo_env ?r2"
    by (intro ext) (simp add: demo_env_def demo_compose_def)
  have f: "negotiateFormat ?r1 = ''base64''" by code_simp
  have t: "sp_get (searchParams (req_url ?r1)) ''target'' = Some ''base64''" by code_simp
  have c: "sp_get (searchParams (req_url ?r1)) ''callback_token'' = Some (getCallbackToken demo_env)"
    by code_simp
  have x: "reply_exit (fst (handleMisubRequest demo_env ?r1)) = Some Base64Output" by code_simp
  from callback_token_noninterference[of ?r1 ?r2 demo_env ?r1] w g f
  have "fst (handleMisubRequest demo_env ?r1) = fst (handleMisubRequest demo_env ?r2)"
    by blast
  with w f x c show ?thesis by simp
qed

text \<open>
  Without the condition on the collaborator the first part fails: line 237 hands the
  request context to the node-list collaborator, and with a collaborator that reads the
  query string two Base64 requests that differ only in \<open>callback_token\<close> get different
  bodies.  And a request with \<open>target=base64\<close> and the callback token is not always
  answered by the Base64 return: one whose token is not the configured one is answered
  403 by line 129.
\<close>

theorem callback_token_reaches_collaborator:
  "without_callback_token (demo_request ''/profiles/teamB''
       [(''target'', ''base64''), (''callback_token'', ''cbtok'')]) =
     without_callback_token (demo_request ''/profiles/teamB'' [(''target'', ''base64'')]) \<and>
   negotiateFormat (demo_request ''/profiles/teamB''
       [(''target'', ''base64''), (''callback_token'', ''cbtok'')]) = ''base64'' \<and>
   negotiateFormat (demo_request ''/profiles/teamB'' [(''target'', ''base64'')]) = ''base64'' \<and>
   reply_exit (fst (handleMisubRequest token_env (demo_request ''/profiles/teamB''
       [(''target'', ''base64''), (''callback_token'', ''cbtok'')]))) = Some Base64Output \<and>
   reply_exit (fst (handleMisubRequest token_env
       (demo_request ''/profiles/teamB'' [(''target'', ''base64'')]))) = Some Base64Output \<and>
   reply_body (fst (handleMisubRequest token_env (demo_request ''/profiles/teamB''
       [(''target'', ''base64''), (''callback_token'', ''cbtok'')]))) \<noteq>
   reply_body (fst (handleMisubRequest token_env
       (demo_request ''/profiles/teamB'' [(''target'', ''base64'')]))) \<and>
   sp_get (searchParams (req_url (converter_request ''/old123''
       [(''target'', ''base64''), (''callback_token'', ''cbtok'')]))) ''target'' = Some ''base64'' \<and>
   fst (handleMisubRequest demo_env (converter_request ''/old123''
       [(''target'', ''base64''), (''callback_token'', ''cbtok'')])) =
     Reply InvalidToken (text_response 403 ''Invalid Token'')"
  by code_simp

subsection \<open>Callback round trip\<close>







subsection \<open>The converter request\<close>

lemma sp_get_set_same: "sp_get (sp_set ps k v) k = Some v"
  by (induction ps k v rule: sp_set.induct) (auto simp: sp_get_def)

lemma sp_get_set_other: "k' \<noteq> k \<Longrightarrow> sp_get (sp_set ps k v) k' = sp_get ps k'"
proof (induction ps k v rule: sp_set.induct)
  case (1 k v)
  then show ?case by (simp add: sp_get_def)
next
  case (2 k0 v0 ps k v)
  show ?case
  proof (cases "k0 = k")
    case True
    have "sp_get (filter (\<lambda>q. fst q \<noteq> k) ps) k' = sp_get ps k'"
      using "2.prems" by (rule sp_get_filter)
    with True "2.prems" show ?thesis by (simp add: sp_get_def)
  next
    case False
    with 2 show ?thesis by (simp add: sp_get_def)
  qed
qed

lemma wantsConfig_iff:
  "wantsConfig f cfg \<longleftrightarrow>
     (f = ''clash'' \<or> f = ''loon'' \<or> f = ''surge'') \<and>
     (cfg = None \<or> (\<exists>c. cfg = Some c \<and> trim c \<noteq> []))"
  by (auto simp: wantsConfig_def split: option.splits)

text \<open>
  Whenever the converter's URL can be built, its query has \<open>target\<close> set to the
  negotiated format, \<open>url\<close> set to the callback URL and \<open>new_name\<close> set to \<open>true\<close>.
  \<open>config\<close> is set by the handler exactly when the format is \<open>clash\<close>, \<open>loon\<close> or
  \<open>surge\<close> and the config string is absent or not blank; it is then the text of that
  value, which for an absent value is \<open>undefined\<close>.
\<close>

theorem converter_request_params:
  assumes "subconverterUrl E r sel f = Some u"
  shows "sp_get (searchParams u) ''target'' = Some f \<and>
         sp_get (searchParams u) ''url'' = Some (callbackUrl E r sel) \<and>
         sp_get (searchParams u) ''new_name'' = Some ''true'' \<and>
         (\<exists>u0. newURL E (''https://'' @ toStr (effectiveSubConverter sel) @ ''/sub'') = Some u0 \<and>
            sp_get (searchParams u) ''config'' =
              (if (f = ''clash'' \<or> f = ''loon'' \<or> f = ''surge'') \<and>
                  (effectiveSubConfig sel = None \<or>
                   (\<exists>c. effectiveSubConfig sel = Some c \<and> trim c \<noteq> []))
               then Some (toStr (effectiveSubConfig sel))
               else sp_get (searchParams u0) ''config''))"
proof -
  from assms obtain u0
    where n: "newURL E (''https://'' @ toStr (effectiveSubConverter sel) @ ''/sub'') = Some u0"
      and u: "u = u0\<lparr>searchParams := converterParams E r sel f (searchParams u0)\<rparr>"
    by (auto simp: subconverterUrl_def split: option.splits)
  have ps: "searchParams u = converterParams E r sel f (searchParams u0)"
    by (simp add: u)
  have a: "sp_get (searchParams u) ''target'' = Some f"
    by (simp add: ps converterParams_def Let_def sp_get_set_other sp_get_set_same)
  have b: "sp_get (searchParams u) ''url'' = Some (callbackUrl E r sel)"
    by (simp add: ps converterParams_def Let_def sp_get_set_other sp_get_set_same)
  have c: "sp_get (searchParams u) ''new_name'' = Some ''true''"
    by (simp add: ps converterParams_def Let_def sp_get_set_same)
  have d: "sp_get (searchParams u) ''config'' =
             (if wantsConfig f (effectiveSubConfig sel) then Some (toStr (effectiveSubConfig sel))
              else sp_get (searchParams u0) ''config'')"
    by (simp add: ps converterParams_def Let_def sp_get_set_other sp_get_set_same)
  from a b c d n show ?thesis
    unfolding wantsConfig_iff by blast
qed

lemma teamB_clash_url:
  "subconverterUrl demo_env (demo_request ''/sub/profiles/teamB'' [(''clash'', [])]) teamB_selection
     ''clash'' =
   Some \<lparr>protocol = ''https:'', host = ''conv.example'', hostname = ''conv.example'',
         pathname = ''/sub'',
         searchParams =
           [(''target'', ''clash''),
            (''url'', ''https://example.com/profiles/teamB?target=base64&callback_token=cbtok''),
            (''config'', ''undefined''), (''new_name'', ''true'')]\<rparr>"
  by code_simp

theorem converter_request_params_witness:
  "sp_get [(''target'', ''clash''),
           (''url'', ''https://example.com/profiles/teamB?target=base64&callback_token=cbtok''),
           (''config'', ''undefined''), (''new_name'', ''true'')] ''url'' =
     Some (callbackUrl demo_env (demo_request ''/sub/profiles/teamB'' [(''clash'', [])])
             teamB_selection) \<and>
   sp_get [(''target'', ''clash''),
           (''url'', ''https://example.com/profiles/teamB?target=base64&callback_token=cbtok''),
           (''config'', ''undefined''), (''new_name'', ''true'')] ''new_name'' = Some ''true''"
  using converter_request_params[OF teamB_clash_url] by simp

text \<open>
  Claim C9, at the input where the code departs from it.  The profile \<open>teamB\<close> has no
  \<open>subConfig\<close> field, so the effective config string is absent; the request asks for
  \<open>clash\<close> and reaches the converter call.  The claim says \<open>config\<close> is then not set;
  the handler sets it, to the text \<open>undefined\<close>: in line 303 \<open>effectiveSubConfig?.trim()\<close>
  is \<open>undefined\<close> for an absent value, and \<open>undefined !== ''\<close> holds.
\<close>

theorem absent_config_sent_as_undefined:
  "selectNodes demo_env (Some ''profiles'') (Some ''teamB'') = Inr teamB_selection \<and>
   p_subConfig teamB = None \<and>
   effectiveSubConfig teamB_selection = None \<and>
   negotiateFormat (demo_request ''/sub/profiles/teamB'' [(''clash'', [])]) = ''clash'' \<and>
   map_option searchParams
     (subconverterUrl demo_env (demo_request ''/sub/profiles/teamB'' [(''clash'', [])])
        teamB_selection ''clash'') =
     Some [(''target'', ''clash''),
           (''url'', ''https://example.com/profiles/teamB?target=base64&callback_token=cbtok''),
           (''config'', ''undefined''), (''new_name'', ''true'')] \<and>
   reply_exit (fst (handleMisubRequest demo_env
     (demo_request ''/sub/profiles/teamB'' [(''clash'', [])]))) = Some ConverterRelay"
  by code_simp

text \<open>
  A callback URL that is not read back as the token and profile it was generated for.
  With \<open>sub\<close> as the profile token, the callback URL generated for \<open>/sub/sub/teamB\<close> has
  the path \<open>/sub/teamB\<close>; line 52 strips \<open>/sub/\<close> from it again, so the converter's fetch
  is read as a direct-token request for the token \<open>teamB\<close> and is answered 403, while the
  Base64 request for the same token and profile is answered 200.
\<close>

theorem callback_url_of_sub_token_rejected:
  "resolveToken (demo_request ''/sub/sub/teamB'' [(''clash'', [])]) = (Some ''sub'', Some ''teamB'') \<and>
   selectNodes sub_token_env (Some ''sub'') (Some ''teamB'') = Inr (teamB_selection\<lparr>token := ''sub''\<rparr>) \<and>
   callbackUrl sub_token_env (demo_request ''/sub/sub/teamB'' [(''clash'', [])])
       (teamB_selection\<lparr>token := ''sub''\<rparr>) =
     ''https://example.com/sub/teamB?target=base64&callback_token=cbtok'' \<and>
   resolveToken (converter_request ''/sub/teamB''
       [(''target'', ''base64''), (''callback_token'', ''cbtok'')]) = (Some ''teamB'', None) \<and>
   fst (handleMisubRequest sub_token_env (converter_request ''/sub/teamB''
       [(''target'', ''base64''), (''callback_token'', ''cbtok'')])) =
     Reply InvalidToken (text_response 403 ''Invalid Token'') \<and>
   reply_status (fst (handleMisubRequest sub_token_env
         (demo_request ''/sub/sub/teamB'' [(''target'', ''base64'')]))) = Some 200 \<and>
   reply_exit (fst (handleMisubRequest sub_token_env
         (demo_request ''/sub/sub/teamB'' [(''target'', ''base64'')]))) = Some Base64Output"
  by code_simp

end
